theory Spec2Isabelle
  imports Complex_Main "HOL-Library.Extended_Nat"
begin

section \<open>Strings and decimal numerals\<close>

text \<open>JavaScript strings are modelled as \<open>string\<close>.\<close>

definition is_digit :: "char \<Rightarrow> bool" where
  "is_digit c = (c \<in> set ''0123456789'')"

definition digit_val :: "char \<Rightarrow> nat" where
  "digit_val c = of_char c - 48"

text \<open>The natural number that a run of decimal digits denotes.\<close>

definition dec :: "string \<Rightarrow> nat" where
  "dec ds = foldl (\<lambda>n c. 10 * n + digit_val c) 0 ds"

definition digit_char :: "nat \<Rightarrow> char" where
  "digit_char d = ''0123456789'' ! d"

text \<open>The decimal digits of a natural number.\<close>

fun decimal_digits :: "nat \<Rightarrow> string" where
  "decimal_digits n =
     (if n < 10 then [digit_char n] else decimal_digits (n div 10) @ [digit_char (n mod 10)])"

declare decimal_digits.simps [simp del]

text \<open>
  The numbers of the duration code are doubles, all of them non-negative integers or
  \<open>Infinity\<close>. They are modelled in \<open>enat\<close>: \<open>enat n\<close>, always with \<open>n < 2 ^ 53\<close>, is the
  integer \<open>n\<close>, and \<open>Beyond\<close> (the top element) stands for every double from \<open>2 ^ 53\<close> up,
  \<open>Infinity\<close> included: the model does not say which one it is. Every integer below
  \<open>2 ^ 53\<close> is a double, \<open>2 ^ 53\<close> is one and rounding is monotone, so \<open>Number\<close> of a digit run,
  a product with a positive constant and a sum are exact when the exact result is below
  \<open>2 ^ 53\<close> and are a double of at least \<open>2 ^ 53\<close> otherwise. That is \<open>as_double\<close> of the exact
  result; the comparisons \<open>x >= 60\<close> and \<open>x > 0\<close> hold of \<open>Beyond\<close>.
\<close>

abbreviation (input) Beyond :: enat where
  "Beyond \<equiv> \<infinity>"

definition as_double :: "enat \<Rightarrow> enat" where
  "as_double x = (case x of enat n \<Rightarrow> if int n < 2 ^ 53 then enat n else Beyond | \<infinity> \<Rightarrow> Beyond)"

text \<open>
  \<open>String(x)\<close>, also in a template literal: the decimal digits of an integer below
  \<open>2 ^ 53\<close>. For a larger double the digits are those of its shortest round-trip form,
  in exponent notation from \<open>10 ^ 21\<close>; the model does not determine them (\<open>None\<close>).
\<close>

definition String_number :: "enat \<Rightarrow> string option" where
  "String_number x = (case x of enat n \<Rightarrow> Some (decimal_digits n) | \<infinity> \<Rightarrow> None)"

text \<open>\<open>s.padStart(2, "0")\<close>.\<close>

definition padStart2 :: "string \<Rightarrow> string" where
  "padStart2 s = (if length s < 2 then replicate (2 - length s) CHR ''0'' @ s else s)"

text \<open>\<open>xs.join(",")\<close>.\<close>

fun join_comma :: "string list \<Rightarrow> string" where
  "join_comma [] = []"
| "join_comma [x] = x"
| "join_comma (x # y # ys) = x @ '','' @ join_comma (y # ys)"


section \<open>The duration parser\<close>

text \<open>
  Both \<open>parseIsoDuration\<close> (route) and \<open>formatDuration\<close> (client) run the regular expression
  \<open>/PT(?:(\d+)H)?(?:(\d+)M)?(?:(\d+)S)?/\<close> with \<open>exec\<close>. The expression is not anchored:
  \<open>exec\<close> matches at the leftmost occurrence of \<open>PT\<close>. Each optional group is greedy and
  nothing is required after the groups, so a group is taken exactly when the maximal run of
  digits at the current position is non-empty and followed by the group's letter.
\<close>

fun find_PT :: "string \<Rightarrow> string option" where
  "find_PT (a # b # cs) = (if a = CHR ''P'' \<and> b = CHR ''T'' then Some cs else find_PT (b # cs))"
| "find_PT _ = None"

definition group :: "char \<Rightarrow> string \<Rightarrow> string option \<times> string" where
  "group c s =
     (let ds = takeWhile is_digit s; r = dropWhile is_digit s
      in if ds \<noteq> [] \<and> r \<noteq> [] \<and> hd r = c then (Some ds, tl r) else (None, s))"

text \<open>The match object: \<open>None\<close> is \<open>null\<close>, otherwise the three capture groups.\<close>

definition exec_duration :: "string \<Rightarrow> (string option \<times> string option \<times> string option) option" where
  "exec_duration s =
     (case find_PT s of
        None \<Rightarrow> None
      | Some r \<Rightarrow>
          (let (h, r1) = group CHR ''H'' r;
               (m, r2) = group CHR ''M'' r1;
               (sec, r3) = group CHR ''S'' r2
           in Some (h, m, sec)))"

text \<open>\<open>Number(match[i] ?? 0)\<close>: the group is a run of digits when it took part in the match.\<close>

definition group_number :: "string option \<Rightarrow> enat" where
  "group_number g = (case g of None \<Rightarrow> 0 | Some ds \<Rightarrow> as_double (enat (dec ds)))"

definition parseIsoDuration :: "string option \<Rightarrow> enat" where
  "parseIsoDuration duration =
     (case duration of
        None \<Rightarrow> 0
      | Some d \<Rightarrow>
          if d = [] then 0
          else (case exec_duration d of
                  None \<Rightarrow> 0
                | Some (h, m, sec) \<Rightarrow>
                    (let hours = group_number h; minutes = group_number m; seconds = group_number sec
                     in as_double (as_double (as_double (hours * 3600) + as_double (minutes * 60))
                                   + seconds))))"

text \<open>
  The display string; \<open>None\<close> when it contains the digits of a number that is \<open>Beyond\<close>,
  which the model does not determine.
\<close>

definition formatDuration :: "string option \<Rightarrow> string option" where
  "formatDuration isoDuration =
     (case isoDuration of
        None \<Rightarrow> Some []
      | Some d \<Rightarrow>
          if d = [] then Some []
          else (case exec_duration d of
                  None \<Rightarrow> Some []
                | Some (h, m, sec) \<Rightarrow>
                    (let hours = group_number h; minutes = group_number m; seconds = group_number sec
                     in if hours > 0
                        then (case (String_number hours, String_number minutes,
                                    String_number seconds) of
                                (Some hh, Some mm, Some ss) \<Rightarrow>
                                  Some (hh @ '':'' @ padStart2 mm @ '':'' @ padStart2 ss)
                              | _ \<Rightarrow> None)
                        else (case (String_number minutes, String_number seconds) of
                                (Some mm, Some ss) \<Rightarrow> Some (mm @ '':'' @ padStart2 ss)
                              | _ \<Rightarrow> None))))"

text \<open>
  The encoding the specification describes: \<open>PT\<close> followed by an optional hour, an optional
  minute and an optional second component, each a non-empty run of digits and its letter.
\<close>

definition digit_string :: "string \<Rightarrow> bool" where
  "digit_string ds = (ds \<noteq> [] \<and> (\<forall>c \<in> set ds. is_digit c))"

definition opt_digits :: "string option \<Rightarrow> bool" where
  "opt_digits g = (case g of None \<Rightarrow> True | Some ds \<Rightarrow> digit_string ds)"

definition component :: "string option \<Rightarrow> char \<Rightarrow> string" where
  "component g c = (case g of None \<Rightarrow> [] | Some ds \<Rightarrow> ds @ [c])"

definition encode_duration :: "string option \<Rightarrow> string option \<Rightarrow> string option \<Rightarrow> string" where
  "encode_duration h m sec =
     ''PT'' @ component h CHR ''H'' @ component m CHR ''M'' @ component sec CHR ''S''"

definition iso_wellformed :: "string \<Rightarrow> bool" where
  "iso_wellformed s =
     (\<exists>h m sec. opt_digits h \<and> opt_digits m \<and> opt_digits sec \<and> s = encode_duration h m sec)"

definition contains_PT :: "string \<Rightarrow> bool" where
  "contains_PT s = (\<exists>a b. s = a @ ''PT'' @ b)"

text \<open>The number a component of an encoded duration denotes, zero when it is absent.\<close>

definition component_value :: "string option \<Rightarrow> nat" where
  "component_value g = (case g of None \<Rightarrow> 0 | Some ds \<Rightarrow> dec ds)"


section \<open>Upstream data\<close>

text \<open>
  The records follow the type annotations of the route: a property marked \<open>?\<close> is an
  \<open>option\<close>. \<open>statistics\<close> is declared mandatory but the comparator guards it with
  \<open>?? {}\<close>, so it is optional here too. Thumbnail sizes are never inspected.
\<close>

record Thumbnail =
  url :: string
  width :: "rat option"
  height :: "rat option"

record Thumbnails =
  medium :: "Thumbnail option"
  high :: "Thumbnail option"

record Snippet =
  title :: "string option"
  channelTitle :: "string option"
  channelId :: "string option"
  publishedAt :: "string option"
  thumbnails :: "Thumbnails option"

record ContentDetails =
  duration :: "string option"

record Statistics =
  viewCount :: "string option"
  likeCount :: "string option"
  commentCount :: "string option"

record VideoItem =
  video_id :: string
  snippet :: "Snippet option"
  contentDetails :: "ContentDetails option"
  statistics :: "Statistics option"

text \<open>A search result: \<open>{ id?: { videoId?: string } }\<close>.\<close>

record SearchId =
  videoId :: "string option"

record SearchItem =
  search_id :: "SearchId option"

text \<open>
  A channel:
  \<open>{ id?: string; snippet?: { thumbnails?: { default?: { url?: string }; medium?: { url?: string } } } }\<close>.
\<close>

record ChannelThumb =
  thumb_url :: "string option"

record ChannelThumbs =
  default_thumb :: "ChannelThumb option"
  medium_thumb :: "ChannelThumb option"

record ChannelSnippet =
  channel_thumbnails :: "ChannelThumbs option"

record ChannelItem =
  channel_id :: "string option"
  channel_snippet :: "ChannelSnippet option"

text \<open>A category: \<open>{ id?: string; snippet?: { title?: string } }\<close>.\<close>

record CategorySnippet =
  category_title :: "string option"

record CategoryItem =
  category_id :: "string option"
  category_snippet :: "CategorySnippet option"


section \<open>Upstream calls\<close>

text \<open>
  \<open>URLSearchParams\<close> is an ordered list of pairs: \<open>get\<close> returns the first value of a name,
  \<open>set\<close> overwrites the first pair of the name and removes the others, or appends.
\<close>

type_synonym params = "(string \<times> string) list"

definition sp_get :: "params \<Rightarrow> string \<Rightarrow> string option" where
  "sp_get ps k = map_of ps k"

fun sp_set :: "params \<Rightarrow> string \<Rightarrow> string \<Rightarrow> params" where
  "sp_set [] k v = [(k, v)]"
| "sp_set (p # ps) k v =
     (if fst p = k then (k, v) # filter (\<lambda>q. fst q \<noteq> k) ps else p # sp_set ps k v)"

text \<open>
  What \<open>response.json()\<close> gives: the promise rejects when the body cannot be read as JSON
  (\<open>Invalid\<close>); otherwise the value is \<open>null\<close> or an object whose \<open>items\<close> is an array
  (\<open>Some\<close>) or not (\<open>None\<close>).
\<close>

datatype 'a json = Invalid | Null | Object "'a list option"

text \<open>
  A response of \<open>fetch\<close>: its status, what \<open>response.text()\<close> gives (\<open>None\<close> when that
  promise rejects) and what \<open>response.json()\<close> gives.
\<close>

record 'a fetched =
  res_status :: nat
  res_text :: "string option"
  res_json :: "'a json"

text \<open>\<open>response.ok\<close>.\<close>

definition ok :: "'a fetched \<Rightarrow> bool" where
  "ok r = (200 \<le> res_status r \<and> res_status r \<le> 299)"

datatype api = VideoCategoriesApi | VideosApi | SearchApi | ChannelsApi

type_synonym call = "api \<times> params"

text \<open>
  \<open>Number(s)\<close> on a string. Every finite double is a rational; the two zeros are one
  value here, and the comparator below does not tell them apart.
\<close>

datatype jsnum = NaN | PosInfinity | NegInfinity | Finite rat

text \<open>
  Everything the handlers read from outside: the built-in \<open>Number\<close> on strings, the
  environment variable, the clock, and the upstream API, one function per path of
  \<open>https://www.googleapis.com/youtube/v3/\<close> from the query to what \<open>await fetch(url)\<close> gives:
  \<open>None\<close> when the promise rejects, otherwise the response.
\<close>

record env =
  Number :: "string \<Rightarrow> jsnum"
  YOUTUBE_API_KEY :: "string option"
  now :: string
  fetch_videoCategories :: "params \<Rightarrow> CategoryItem fetched option"
  fetch_videos :: "params \<Rightarrow> VideoItem fetched option"
  fetch_search :: "params \<Rightarrow> SearchItem fetched option"
  fetch_channels :: "params \<Rightarrow> ChannelItem fetched option"


section \<open>Responses of the two endpoints\<close>

record CategoryOption =
  opt_value :: string
  opt_label :: string

text \<open>
  The value of \<open>channelThumbnail\<close> in a returned record. It is read from a plain object used
  as a dictionary, so besides a string it can be a member of \<open>Object.prototype\<close>: the
  prototype object itself under the key \<open>__proto__\<close>, which \<open>JSON.stringify\<close> writes as \<open>{}\<close>,
  or one of its functions, and \<open>JSON.stringify\<close> leaves a function-valued property out.
\<close>

datatype property = Text string | Prototype | Method

record VideoOut =
  out_id :: string
  out_title :: string
  out_channelTitle :: string
  out_channelThumbnail :: property
  out_publishedAt :: string
  out_duration :: string
  out_thumbnails :: Thumbnails
  out_statistics :: "Statistics option"

record VideosPayload =
  p_items :: "VideoOut list"
  p_fetchedAt :: string
  p_region :: string
  p_category :: string
  p_sort :: string
  p_shorts :: string

datatype body =
  ErrorBody string "string option"
| CategoriesBody "CategoryOption list"
| VideosBody VideosPayload

record http_response =
  status :: nat
  body :: body

text \<open>
  A part of a handler continues with a value, returns a response, or throws (a rejected
  promise that the handler does not catch); with it comes the list of upstream calls made.
\<close>

datatype 'a step = Continue 'a | Respond http_response | Throw

fun bind :: "'a step \<times> call list \<Rightarrow> ('a \<Rightarrow> 'b step \<times> call list) \<Rightarrow> 'b step \<times> call list" where
  "bind (Continue a, l) f = (case f a of (r, l') \<Rightarrow> (r, l @ l'))"
| "bind (Respond r, l) f = (Respond r, l)"
| "bind (Throw, l) f = (Throw, l)"

text \<open>\<open>if (!apiKey)\<close>: an absent and an empty variable are both missing.\<close>

definition credential :: "env \<Rightarrow> string option" where
  "credential e =
     (case YOUTUBE_API_KEY e of None \<Rightarrow> None | Some k \<Rightarrow> if k = [] then None else Some k)"

definition missing_key :: http_response where
  "missing_key = \<lparr>status = 500, body = ErrorBody ''Missing YOUTUBE_API_KEY in environment.'' None\<rparr>"

text \<open>
  \<open>NextResponse.json(body, { status })\<close> builds the response with \<open>Response.json\<close>, which
  throws a \<open>RangeError\<close> when the status is outside 200 to 599 and a \<open>TypeError\<close> when it is a
  null body status (101, 103, 204, 205, 304), the body being present. Without a status the
  response has status 200; the handlers' own statuses, 200 and 500, are accepted.
\<close>

definition null_body_status :: "nat \<Rightarrow> bool" where
  "null_body_status st = (st \<in> {101, 103, 204, 205, 304})"

definition NextResponse_json :: "body \<Rightarrow> nat \<Rightarrow> 'a step" where
  "NextResponse_json b st =
     (if 200 \<le> st \<and> st \<le> 599 \<and> \<not> null_body_status st then Respond \<lparr>status = st, body = b\<rparr>
      else Throw)"

text \<open>
  \<open>const message = await response.text(); return NextResponse.json({ error: "YouTube API error",
  details: message }, { status: response.status })\<close>.
\<close>

definition upstream_error :: "'a fetched \<Rightarrow> 'b step" where
  "upstream_error response =
     (case res_text response of
        None \<Rightarrow> Throw
      | Some message \<Rightarrow>
          NextResponse_json (ErrorBody ''YouTube API error'' (Some message)) (res_status response))"

text \<open>\<open>Array.isArray(data.items) ? data.items : []\<close>.\<close>

definition items_or_empty :: "'a list option \<Rightarrow> 'a list" where
  "items_or_empty its = (case its of Some xs \<Rightarrow> xs | None \<Rightarrow> [])"

text \<open>\<open>x ?? ""\<close>.\<close>

definition or_empty :: "string option \<Rightarrow> string" where
  "or_empty x = (case x of Some s \<Rightarrow> s | None \<Rightarrow> [])"


section \<open>The categories endpoint\<close>

definition category_option :: "CategoryItem \<Rightarrow> CategoryOption" where
  "category_option item =
     \<lparr>opt_value = or_empty (category_id item),
      opt_label = (case category_snippet item of None \<Rightarrow> [] | Some s \<Rightarrow> or_empty (category_title s))\<rparr>"

definition GET_categories :: "env \<Rightarrow> unit step \<times> call list" where
  "GET_categories e =
     (case credential e of
        None \<Rightarrow> (Respond missing_key, [])
      | Some apiKey \<Rightarrow>
          (let params = [(''part'', ''snippet''), (''regionCode'', ''KR''), (''hl'', ''ko''),
                         (''key'', apiKey)];
               calls = [(VideoCategoriesApi, params)]
           in case fetch_videoCategories e params of
                None \<Rightarrow> (Throw, calls)
              | Some response \<Rightarrow>
                  if \<not> ok response then (upstream_error response, calls)
                  else (case res_json response of
                          Invalid \<Rightarrow> (Throw, calls)
                        | Null \<Rightarrow> (Throw, calls)
                        | Object its \<Rightarrow>
                            (let items = items_or_empty its;
                                 categories = filter (\<lambda>c. opt_value c \<noteq> [] \<and> opt_label c \<noteq> [])
                                                (map category_option items)
                             in (Respond \<lparr>status = 200, body = CategoriesBody categories\<rparr>,
                                 calls)))))"


section \<open>The videos endpoint\<close>

text \<open>\<open>String(MAX_RESULTS)\<close> is \<open>decimal_digits MAX_RESULTS\<close>, the string \<open>24\<close>.\<close>

definition MAX_RESULTS :: nat where
  "MAX_RESULTS = 24"

definition toNumber :: "env \<Rightarrow> string option \<Rightarrow> rat" where
  "toNumber e v =
     (case v of
        None \<Rightarrow> 0
      | Some s \<Rightarrow> if s = [] then 0 else (case Number e s of Finite parsed \<Rightarrow> parsed | _ \<Rightarrow> 0))"

subsection \<open>Retrieval\<close>

definition primary_params :: "string \<Rightarrow> string \<Rightarrow> string \<Rightarrow> params" where
  "primary_params apiKey region category =
     (let params = [(''part'', ''snippet,statistics,contentDetails''), (''chart'', ''mostPopular''),
                    (''maxResults'', decimal_digits MAX_RESULTS), (''key'', apiKey)];
          params = (if region \<noteq> ''WORLD'' then sp_set params ''regionCode'' region else params);
          params = (if category \<noteq> ''all'' then sp_set params ''videoCategoryId'' category
                    else params)
      in params)"

definition fetchByIds_params :: "string \<Rightarrow> string list \<Rightarrow> params" where
  "fetchByIds_params apiKey ids =
     [(''part'', ''snippet,statistics,contentDetails''), (''id'', join_comma ids), (''key'', apiKey),
      (''maxResults'', decimal_digits MAX_RESULTS)]"

definition fetchByIds :: "env \<Rightarrow> string \<Rightarrow> string list \<Rightarrow> VideoItem list step \<times> call list" where
  "fetchByIds e apiKey ids =
     (if ids = [] then (Continue [], [])
      else (let videoParams = fetchByIds_params apiKey ids;
                calls = [(VideosApi, videoParams)]
            in case fetch_videos e videoParams of
                 None \<Rightarrow> (Throw, calls)
               | Some videosResponse \<Rightarrow>
                   if \<not> ok videosResponse then (Continue [], calls)
                   else (case res_json videosResponse of
                           Invalid \<Rightarrow> (Throw, calls)
                         | Null \<Rightarrow> (Throw, calls)
                         | Object its \<Rightarrow> (Continue (items_or_empty its), calls))))"

definition buildSearchParams :: "string \<Rightarrow> string \<Rightarrow> string \<Rightarrow> bool \<Rightarrow> params" where
  "buildSearchParams apiKey region category withRegion =
     (let sp = [(''part'', ''snippet''), (''type'', ''video''), (''order'', ''viewCount''),
                (''videoCategoryId'', category), (''maxResults'', decimal_digits MAX_RESULTS),
                (''key'', apiKey), (''safeSearch'', ''none'')]
      in if withRegion then sp_set sp ''regionCode'' region else sp)"

text \<open>\<open>items.map((item) => item.id?.videoId).filter(Boolean)\<close>, or \<open>[]\<close> without an array.\<close>

definition item_videoId :: "SearchItem \<Rightarrow> string option" where
  "item_videoId item = (case search_id item of None \<Rightarrow> None | Some i \<Rightarrow> videoId i)"

definition search_ids :: "SearchItem list option \<Rightarrow> string list" where
  "search_ids its = filter (\<lambda>v. v \<noteq> []) (List.map_filter item_videoId (items_or_empty its))"

text \<open>
  The second search, made when the first gave no identifier: its identifiers replace the
  empty list only when it succeeds.
\<close>

definition search_again ::
  "env \<Rightarrow> string \<Rightarrow> string \<Rightarrow> string \<Rightarrow> string list step \<times> call list" where
  "search_again e apiKey region category =
     (let sp = buildSearchParams apiKey region category False;
          calls = [(SearchApi, sp)]
      in case fetch_search e sp of
           None \<Rightarrow> (Throw, calls)
         | Some searchResponse \<Rightarrow>
             if ok searchResponse
             then (case res_json searchResponse of
                     Invalid \<Rightarrow> (Throw, calls)
                   | Null \<Rightarrow> (Throw, calls)
                   | Object its \<Rightarrow> (Continue (search_ids its), calls))
             else (Continue [], calls))"

text \<open>The branch taken on a 404 for a category: the identifiers to hydrate.\<close>

definition fallback_ids :: "env \<Rightarrow> string \<Rightarrow> string \<Rightarrow> string \<Rightarrow> string list step \<times> call list" where
  "fallback_ids e apiKey region category =
     (let sp = buildSearchParams apiKey region category True;
          calls = [(SearchApi, sp)]
      in case fetch_search e sp of
           None \<Rightarrow> (Throw, calls)
         | Some searchResponse \<Rightarrow>
             if \<not> ok searchResponse then (upstream_error searchResponse, calls)
             else (case res_json searchResponse of
                     Invalid \<Rightarrow> (Throw, calls)
                   | Null \<Rightarrow> (Throw, calls)
                   | Object its \<Rightarrow>
                       (let ids = search_ids its
                        in if ids = []
                           then bind (Continue (), calls) (\<lambda>_. search_again e apiKey region category)
                           else (Continue ids, calls))))"

text \<open>
  \<open>data\<close> after the three-way branch on the primary response: \<open>None\<close> is \<open>null\<close>,
  otherwise the \<open>items\<close> property.
\<close>

definition fetch_data ::
  "env \<Rightarrow> string \<Rightarrow> string \<Rightarrow> string \<Rightarrow> VideoItem list option option step \<times> call list" where
  "fetch_data e apiKey region category =
     (let params = primary_params apiKey region category;
          calls = [(VideosApi, params)]
      in case fetch_videos e params of
           None \<Rightarrow> (Throw, calls)
         | Some response \<Rightarrow>
             if ok response
             then (case res_json response of
                     Invalid \<Rightarrow> (Throw, calls)
                   | Null \<Rightarrow> (Continue None, calls)
                   | Object its \<Rightarrow> (Continue (Some its), calls))
             else if res_status response = 404 \<and> category \<noteq> ''all''
             then bind (Continue (), calls) (\<lambda>_.
                    bind (fallback_ids e apiKey region category) (\<lambda>ids.
                      bind (fetchByIds e apiKey ids) (\<lambda>items. (Continue (Some (Some items)), []))))
             else (upstream_error response, calls))"

subsection \<open>Channel thumbnails\<close>

text \<open>\<open>Array.from(new Set(xs))\<close>: the first occurrence of each element, in order.\<close>

definition distinct_in_order :: "'a list \<Rightarrow> 'a list" where
  "distinct_in_order xs = foldl (\<lambda>acc x. if x \<in> set acc then acc else acc @ [x]) [] xs"

definition item_channelId :: "VideoItem \<Rightarrow> string option" where
  "item_channelId item = (case snippet item of None \<Rightarrow> None | Some s \<Rightarrow> channelId s)"

definition channelIds_of :: "VideoItem list \<Rightarrow> string list" where
  "channelIds_of items =
     distinct_in_order (filter (\<lambda>c. c \<noteq> []) (List.map_filter item_channelId items))"

definition medium_url :: "ChannelItem \<Rightarrow> string option" where
  "medium_url channel =
     (case channel_snippet channel of None \<Rightarrow> None
      | Some s \<Rightarrow> (case channel_thumbnails s of None \<Rightarrow> None
          | Some t \<Rightarrow> (case medium_thumb t of None \<Rightarrow> None | Some m \<Rightarrow> thumb_url m)))"

definition default_url :: "ChannelItem \<Rightarrow> string option" where
  "default_url channel =
     (case channel_snippet channel of None \<Rightarrow> None
      | Some s \<Rightarrow> (case channel_thumbnails s of None \<Rightarrow> None
          | Some t \<Rightarrow> (case default_thumb t of None \<Rightarrow> None | Some d \<Rightarrow> thumb_url d)))"

text \<open>\<open>medium?.url || default?.url || ""\<close>: the first operand that is a non-empty string.\<close>

definition channel_thumb :: "ChannelItem \<Rightarrow> string" where
  "channel_thumb channel =
     (if or_empty (medium_url channel) \<noteq> [] then or_empty (medium_url channel)
      else if or_empty (default_url channel) \<noteq> [] then or_empty (default_url channel)
      else [])"

text \<open>
  The dictionary \<open>channelThumbnails\<close> is a plain object, \<open>{}\<close> at first. The model keeps its own
  properties in a map. \<open>acc[k] = v\<close> with a string \<open>v\<close> creates or overwrites the own property
  \<open>k\<close>, except for \<open>k = "__proto__"\<close>: that runs the setter of \<open>Object.prototype\<close>, which
  ignores a string, and stores nothing. \<open>obj[k]\<close> is the own property when there is one, and
  otherwise what \<open>Object.prototype\<close> has under \<open>k\<close>: the prototype object for \<open>__proto__\<close>, a
  function for its eleven other members, \<open>undefined\<close> (\<open>None\<close>) for every other key.
\<close>

definition Object_prototype_methods :: "string list" where
  "Object_prototype_methods =
     [''constructor'', ''hasOwnProperty'', ''isPrototypeOf'', ''propertyIsEnumerable'',
      ''toLocaleString'', ''toString'', ''valueOf'', ''__defineGetter__'', ''__defineSetter__'',
      ''__lookupGetter__'', ''__lookupSetter__'']"

definition object_set :: "(string \<rightharpoonup> string) \<Rightarrow> string \<Rightarrow> string \<Rightarrow> (string \<rightharpoonup> string)" where
  "object_set obj k v = (if k = ''__proto__'' then obj else obj(k \<mapsto> v))"

definition object_get :: "(string \<rightharpoonup> string) \<Rightarrow> string \<Rightarrow> property option" where
  "object_get obj k =
     (case obj k of
        Some v \<Rightarrow> Some (Text v)
      | None \<Rightarrow>
          if k = ''__proto__'' then Some Prototype
          else if k \<in> set Object_prototype_methods then Some Method
          else None)"

text \<open>The reducer.\<close>

definition add_channel :: "(string \<rightharpoonup> string) \<Rightarrow> ChannelItem \<Rightarrow> (string \<rightharpoonup> string)" where
  "add_channel acc channel =
     (case channel_id channel of
        None \<Rightarrow> acc
      | Some i \<Rightarrow>
          if i = [] then acc
          else (let thumb = channel_thumb channel
                in if thumb \<noteq> [] then object_set acc i thumb else acc))"

definition channel_params :: "string \<Rightarrow> string list \<Rightarrow> params" where
  "channel_params apiKey channelIds =
     [(''part'', ''snippet''), (''id'', join_comma channelIds), (''key'', apiKey),
      (''maxResults'', ''50'')]"

definition fetch_channelThumbnails ::
  "env \<Rightarrow> string \<Rightarrow> VideoItem list \<Rightarrow> (string \<rightharpoonup> string) step \<times> call list" where
  "fetch_channelThumbnails e apiKey items =
     (let channelIds = channelIds_of items
      in if channelIds \<noteq> []
         then (let channelParams = channel_params apiKey channelIds;
                   calls = [(ChannelsApi, channelParams)]
               in case fetch_channels e channelParams of
                    None \<Rightarrow> (Throw, calls)
                  | Some channelResponse \<Rightarrow>
                      if ok channelResponse
                      then (case res_json channelResponse of
                              Invalid \<Rightarrow> (Throw, calls)
                            | Null \<Rightarrow> (Throw, calls)
                            | Object its \<Rightarrow>
                                (Continue (foldl add_channel Map.empty (items_or_empty its)), calls))
                      else (Continue Map.empty, calls))
         else (Continue Map.empty, []))"

subsection \<open>Ranking and filtering\<close>

text \<open>
  \<open>[...items].sort(compare)\<close>. The comparator is the difference of two finite keys, whose sign
  is the sign of the exact difference, so it is consistent; \<open>Array.prototype.sort\<close> is stable
  and puts \<open>a\<close> before \<open>b\<close> when \<open>compare(a, b) < 0\<close>. The model is the stable insertion sort
  driven by the comparator.
\<close>

fun insert_by :: "('a \<Rightarrow> 'a \<Rightarrow> rat) \<Rightarrow> 'a \<Rightarrow> 'a list \<Rightarrow> 'a list" where
  "insert_by cmp x [] = [x]"
| "insert_by cmp x (y # ys) = (if cmp x y \<le> 0 then x # y # ys else y # insert_by cmp x ys)"

fun sort_by :: "('a \<Rightarrow> 'a \<Rightarrow> rat) \<Rightarrow> 'a list \<Rightarrow> 'a list" where
  "sort_by cmp [] = []"
| "sort_by cmp (x # xs) = insert_by cmp x (sort_by cmp xs)"

text \<open>\<open>item.statistics ?? {}\<close>.\<close>

definition stats_of :: "VideoItem \<Rightarrow> Statistics" where
  "stats_of item =
     (case statistics item of
        None \<Rightarrow> \<lparr>viewCount = None, likeCount = None, commentCount = None\<rparr>
      | Some s \<Rightarrow> s)"

definition getValue :: "env \<Rightarrow> string \<Rightarrow> Statistics \<Rightarrow> rat" where
  "getValue e sort_param stats =
     (if sort_param = ''likes'' then toNumber e (likeCount stats)
      else if sort_param = ''comments'' then toNumber e (commentCount stats)
      else toNumber e (viewCount stats))"

definition compare_items :: "env \<Rightarrow> string \<Rightarrow> VideoItem \<Rightarrow> VideoItem \<Rightarrow> rat" where
  "compare_items e sort_param a b =
     getValue e sort_param (stats_of b) - getValue e sort_param (stats_of a)"

definition rank :: "env \<Rightarrow> string \<Rightarrow> VideoItem list \<Rightarrow> VideoItem list" where
  "rank e sort_param items = sort_by (compare_items e sort_param) items"

definition item_duration :: "VideoItem \<Rightarrow> string option" where
  "item_duration item = (case contentDetails item of None \<Rightarrow> None | Some c \<Rightarrow> duration c)"

definition not_short :: "VideoItem \<Rightarrow> bool" where
  "not_short item = (parseIsoDuration (item_duration item) \<ge> 60)"

definition apply_shorts :: "string \<Rightarrow> VideoItem list \<Rightarrow> VideoItem list" where
  "apply_shorts shorts sorted_items =
     (if shorts = ''exclude'' then filter not_short sorted_items else sorted_items)"

subsection \<open>The response\<close>

definition present :: "(string \<rightharpoonup> string) \<Rightarrow> VideoItem \<Rightarrow> VideoOut" where
  "present channelThumbnails item =
     \<lparr>out_id = video_id item,
      out_title = (case snippet item of None \<Rightarrow> [] | Some s \<Rightarrow> or_empty (title s)),
      out_channelTitle = (case snippet item of None \<Rightarrow> [] | Some s \<Rightarrow> or_empty (channelTitle s)),
      out_channelThumbnail =
        (if or_empty (item_channelId item) \<noteq> []
         then (case object_get channelThumbnails (or_empty (item_channelId item)) of
                 None \<Rightarrow> Text []
               | Some v \<Rightarrow> v)
         else Text []),
      out_publishedAt = (case snippet item of None \<Rightarrow> [] | Some s \<Rightarrow> or_empty (publishedAt s)),
      out_duration = or_empty (item_duration item),
      out_thumbnails =
        (case (case snippet item of None \<Rightarrow> None | Some s \<Rightarrow> thumbnails s) of
           None \<Rightarrow> \<lparr>medium = None, high = None\<rparr>
         | Some t \<Rightarrow> t),
      out_statistics = statistics item\<rparr>"

definition videos_response ::
  "env \<Rightarrow> string \<Rightarrow> string \<Rightarrow> string \<Rightarrow> string \<Rightarrow> (string \<rightharpoonup> string) \<Rightarrow> VideoItem list
     \<Rightarrow> http_response" where
  "videos_response e region category sort_param shorts channelThumbnails items =
     (let sorted_items = rank e sort_param items;
          filtered = apply_shorts shorts sorted_items
      in \<lparr>status = 200,
          body = VideosBody
            \<lparr>p_items = map (present channelThumbnails) filtered,
             p_fetchedAt = now e,
             p_region = region,
             p_category = category,
             p_sort = sort_param,
             p_shorts = shorts\<rparr>\<rparr>)"

definition empty_response :: http_response where
  "empty_response = \<lparr>status = 500, body = ErrorBody ''YouTube API error'' (Some ''Empty response'')\<rparr>"

text \<open>
  The handler; \<open>query\<close> is \<open>new URL(request.url).searchParams\<close>, and the four parameters
  are read with \<open>searchParams.get(name) ?? default\<close>.
\<close>

definition query_region :: "params \<Rightarrow> string" where
  "query_region query = (case sp_get query ''region'' of None \<Rightarrow> ''KR'' | Some r \<Rightarrow> r)"

definition query_category :: "params \<Rightarrow> string" where
  "query_category query = (case sp_get query ''category'' of None \<Rightarrow> ''all'' | Some c \<Rightarrow> c)"

definition query_sort :: "params \<Rightarrow> string" where
  "query_sort query = (case sp_get query ''sort'' of None \<Rightarrow> ''views'' | Some s \<Rightarrow> s)"

definition query_shorts :: "params \<Rightarrow> string" where
  "query_shorts query = (case sp_get query ''shorts'' of None \<Rightarrow> ''include'' | Some s \<Rightarrow> s)"

definition GET_videos :: "env \<Rightarrow> params \<Rightarrow> unit step \<times> call list" where
  "GET_videos e query =
     (case credential e of
        None \<Rightarrow> (Respond missing_key, [])
      | Some apiKey \<Rightarrow>
          (let region = query_region query;
               category = query_category query;
               sort_param = query_sort query;
               shorts = query_shorts query
           in bind (fetch_data e apiKey region category) (\<lambda>data.
                case data of
                  None \<Rightarrow> (Respond empty_response, [])
                | Some its \<Rightarrow>
                    (let items = items_or_empty its
                     in bind (fetch_channelThumbnails e apiKey items) (\<lambda>channelThumbnails.
                          (Respond (videos_response e region category sort_param shorts
                                      channelThumbnails items), []))))))"

text \<open>The item list of a response (empty for an error body).\<close>

definition response_items :: "http_response \<Rightarrow> VideoOut list" where
  "response_items r = (case body r of VideosBody p \<Rightarrow> p_items p | _ \<Rightarrow> [])"


section \<open>Sample upstream\<close>

text \<open>
  Concrete data for the examples. \<open>sample_Number\<close> is \<open>Number\<close> restricted to the strings
  the examples use: a short run of decimal digits has its decimal value, and \<open>abc\<close> is
  \<open>NaN\<close>.
\<close>

definition sample_Number :: "string \<Rightarrow> jsnum" where
  "sample_Number s = (if digit_string s then Finite (of_nat (dec s)) else NaN)"

definition reply :: "nat \<Rightarrow> string \<Rightarrow> 'a json \<Rightarrow> 'a fetched option" where
  "reply st txt js = Some \<lparr>res_status = st, res_text = Some txt, res_json = js\<rparr>"

definition sample_env ::
  "string option \<Rightarrow> (params \<Rightarrow> VideoItem fetched option)
     \<Rightarrow> (params \<Rightarrow> SearchItem fetched option) \<Rightarrow> (params \<Rightarrow> ChannelItem fetched option)
     \<Rightarrow> env" where
  "sample_env key videos search channels =
     \<lparr>Number = sample_Number,
      YOUTUBE_API_KEY = key,
      now = ''2024-05-01T00:00:00.000Z'',
      fetch_videoCategories = (\<lambda>_. reply 200 [] (Object (Some []))),
      fetch_videos = videos,
      fetch_search = search,
      fetch_channels = channels\<rparr>"

definition sample_video :: "string \<Rightarrow> string \<Rightarrow> string option \<Rightarrow> string \<Rightarrow> VideoItem" where
  "sample_video i ch views dur =
     \<lparr>video_id = i,
      snippet = Some \<lparr>title = Some i, channelTitle = None, channelId = Some ch,
                      publishedAt = None, thumbnails = None\<rparr>,
      contentDetails = Some \<lparr>duration = Some dur\<rparr>,
      statistics = Some \<lparr>viewCount = views, likeCount = None, commentCount = None\<rparr>\<rparr>"

definition sample_hit :: "string \<Rightarrow> SearchItem" where
  "sample_hit i = \<lparr>search_id = Some \<lparr>videoId = Some i\<rparr>\<rparr>"

definition sample_channel :: "string \<Rightarrow> string option \<Rightarrow> string option \<Rightarrow> ChannelItem" where
  "sample_channel i d m =
     \<lparr>channel_id = Some i,
      channel_snippet = Some \<lparr>channel_thumbnails =
        Some \<lparr>default_thumb = Some \<lparr>thumb_url = d\<rparr>, medium_thumb = Some \<lparr>thumb_url = m\<rparr>\<rparr>\<rparr>\<rparr>"

text \<open>Three videos, the first two of one channel, the second a short.\<close>

definition sample_items :: "VideoItem list" where
  "sample_items =
     [sample_video ''a'' ''c1'' (Some ''5'') ''PT2M'',
      sample_video ''b'' ''c1'' (Some ''70'') ''PT45S'',
      sample_video ''c'' ''c2'' (Some ''abc'') ''PT1H'']"

text \<open>A listing endpoint that knows no category, and hydrates any identifiers.\<close>

definition videos_404 :: "params \<Rightarrow> VideoItem fetched option" where
  "videos_404 p =
     (if sp_get p ''chart'' = Some ''mostPopular'' then reply 404 ''no such category'' Invalid
      else reply 200 [] (Object (Some sample_items)))"

definition videos_down :: "params \<Rightarrow> VideoItem fetched option" where
  "videos_down p =
     (if sp_get p ''chart'' = Some ''mostPopular'' then reply 404 ''no such category'' Invalid
      else reply 503 ''unavailable'' Invalid)"



definition videos_ok :: "params \<Rightarrow> VideoItem fetched option" where
  "videos_ok p = reply 200 [] (Object (Some sample_items))"

definition search_none :: "params \<Rightarrow> SearchItem fetched option" where
  "search_none p = reply 200 [] (Object (Some []))"

definition search_denied :: "params \<Rightarrow> SearchItem fetched option" where
  "search_denied p = reply 403 ''quota exceeded'' Invalid"

definition search_region_only :: "params \<Rightarrow> SearchItem fetched option" where
  "search_region_only p =
     (if sp_get p ''regionCode'' = None then reply 500 ''backend error'' Invalid
      else reply 200 [] (Object (Some [])))"

definition search_hits :: "params \<Rightarrow> SearchItem fetched option" where
  "search_hits p = reply 200 [] (Object (Some [sample_hit ''a'', sample_hit ''b'']))"

definition channels_ok :: "params \<Rightarrow> ChannelItem fetched option" where
  "channels_ok p =
     reply 200 [] (Object (Some [sample_channel ''c1'' (Some ''d1'') (Some ''m1''),
                                 sample_channel ''c2'' (Some ''d2'') None]))"



section \<open>The ranking statistic as the specification states it\<close>

text \<open>
  The statistic a sort key selects: \<open>views\<close> the view count, \<open>likes\<close> the like count,
  \<open>comments\<close> the comment count, anything else the view count; and the number a returned
  record is ranked by, zero when the record has no statistics.
\<close>

definition selected_statistic :: "string \<Rightarrow> Statistics \<Rightarrow> string option" where
  "selected_statistic sort_param stats =
     (if sort_param = ''views'' then viewCount stats
      else if sort_param = ''likes'' then likeCount stats
      else if sort_param = ''comments'' then commentCount stats
      else viewCount stats)"

definition out_value :: "env \<Rightarrow> string \<Rightarrow> VideoOut \<Rightarrow> rat" where
  "out_value e sort_param out =
     (case out_statistics out of
        None \<Rightarrow> 0
      | Some stats \<Rightarrow> toNumber e (selected_statistic sort_param stats))"


section \<open>Sequencing of the parts of a handler\<close>

lemma snd_bind:
  "snd (bind m f) = snd m @ (case fst m of Continue a \<Rightarrow> snd (f a) | _ \<Rightarrow> [])"
  by (cases m; cases "fst m") (auto split: prod.splits)

lemma fst_bind:
  "fst (bind m f)
     = (case fst m of Continue a \<Rightarrow> fst (f a) | Respond r \<Rightarrow> Respond r | Throw \<Rightarrow> Throw)"
  by (cases m; cases "fst m") (auto split: prod.splits)

lemma bind_Continue: "bind (Continue a, l) f = (fst (f a), l @ snd (f a))"
  by (simp split: prod.splits)




lemma upstream_error_text:
  "res_text response = Some message \<Longrightarrow> 200 \<le> res_status response
     \<Longrightarrow> res_status response \<le> 599 \<Longrightarrow> \<not> null_body_status (res_status response)
     \<Longrightarrow> upstream_error response
           = Respond \<lparr>status = res_status response,
                      body = ErrorBody ''YouTube API error'' (Some message)\<rparr>"
  by (simp add: upstream_error_def NextResponse_json_def)


lemma not_ok_status:
  "\<not> ok response \<Longrightarrow> 300 \<le> res_status response \<Longrightarrow> res_status response \<noteq> 304
     \<Longrightarrow> 200 \<le> res_status response \<and> \<not> null_body_status (res_status response)"
  by (auto simp: ok_def null_body_status_def)

lemma GET_videos_calls:
  assumes "credential e = Some k"
  shows "snd (GET_videos e query)
           = snd (fetch_data e k (query_region query) (query_category query))
             @ (case fst (fetch_data e k (query_region query) (query_category query)) of
                  Continue (Some its) \<Rightarrow> snd (fetch_channelThumbnails e k (items_or_empty its))
                | _ \<Rightarrow> [])"
  using assms
  by (auto simp: GET_videos_def Let_def snd_bind split: step.splits option.splits)

lemma fst_bind_Continue: "fst m = Continue a \<Longrightarrow> fst (bind m f) = fst (f a)"
  by (cases m) (simp split: prod.splits)

lemma fst_bind_Respond: "fst m = Respond r \<Longrightarrow> fst (bind m f) = Respond r"
  by (cases m) simp

lemma fst_bind_Throw: "fst m = Throw \<Longrightarrow> fst (bind m f) = Throw"
  by (cases m) simp

lemma body_upstream_error:
  "upstream_error x = Respond r \<Longrightarrow> \<exists>m d. body r = ErrorBody m d"
  by (auto simp: upstream_error_def NextResponse_json_def split: option.splits if_splits)

lemma fallback_ids_responds:
  "fst (fallback_ids e k region category) = Respond r \<Longrightarrow> \<exists>m d. body r = ErrorBody m d"
  by (auto simp: fallback_ids_def search_again_def Let_def
      dest: body_upstream_error split: if_splits json.splits option.splits)

lemma fetchByIds_never_responds: "fst (fetchByIds e k ids) \<noteq> Respond r"
  by (auto simp: fetchByIds_def Let_def split: if_splits json.splits option.splits)

lemma hydration_responds:
  assumes "fst (bind (fallback_ids e k region category) (\<lambda>ids.
                  bind (fetchByIds e k ids) (\<lambda>items. (Continue (Some (Some items)), [])))) = Respond r"
  shows "\<exists>m d. body r = ErrorBody m d"
proof (cases "fst (fallback_ids e k region category)")
  case (Continue ids)
  with assms have *: "fst (bind (fetchByIds e k ids) (\<lambda>items. (Continue (Some (Some items)), [])))
                       = Respond r"
    by (simp add: fst_bind_Continue)
  show ?thesis
  proof (cases "fst (fetchByIds e k ids)")
    case (Continue items)
    with * show ?thesis by (simp add: fst_bind_Continue)
  next
    case (Respond x)
    then show ?thesis using fetchByIds_never_responds by blast
  next
    case Throw
    with * show ?thesis by (simp add: fst_bind_Throw)
  qed
next
  case (Respond x)
  with assms have "x = r" by (simp add: fst_bind_Respond)
  with Respond show ?thesis using fallback_ids_responds by blast
next
  case Throw
  with assms show ?thesis by (simp add: fst_bind_Throw)
qed

lemma fetch_data_responds:
  assumes "fst (fetch_data e k region category) = Respond r"
  shows "\<exists>m d. body r = ErrorBody m d"
proof (cases "fetch_videos e (primary_params k region category)")
  case None
  with assms show ?thesis by (simp add: fetch_data_def Let_def)
next
  case (Some response)
  consider (a) "ok response"
    | (b) "\<not> ok response" "res_status response = 404 \<and> category \<noteq> ''all''"
    | (c) "\<not> ok response" "\<not> (res_status response = 404 \<and> category \<noteq> ''all'')"
    by blast
  then show ?thesis
  proof cases
    case a
    with assms Some show ?thesis
      by (auto simp: fetch_data_def Let_def split: json.splits)
  next
    case b
    with Some have "fetch_data e k region category
           = bind (Continue (), [(VideosApi, primary_params k region category)]) (\<lambda>_.
                bind (fallback_ids e k region category) (\<lambda>ids.
                  bind (fetchByIds e k ids) (\<lambda>items. (Continue (Some (Some items)), []))))"
      by (simp add: fetch_data_def Let_def del: bind.simps)
    with assms have "fst (bind (fallback_ids e k region category) (\<lambda>ids.
                  bind (fetchByIds e k ids) (\<lambda>items. (Continue (Some (Some items)), [])))) = Respond r"
      by (simp add: fst_bind_Continue del: bind.simps)
    then show ?thesis by (rule hydration_responds)
  next
    case c
    with assms Some show ?thesis
      by (auto simp: fetch_data_def Let_def dest: body_upstream_error)
  qed
qed

lemma channels_never_respond: "fst (fetch_channelThumbnails e k items) \<noteq> Respond r"
  by (auto simp: fetch_channelThumbnails_def Let_def split: if_splits json.splits option.splits)

lemma GET_videos_success_shape:
  assumes "fst (GET_videos e query) = Respond r" and "body r = VideosBody p"
  shows "\<exists>thumbs items. r = videos_response e (query_region query) (query_category query)
                             (query_sort query) (query_shorts query) thumbs items"
proof (cases "credential e")
  case None
  with assms show ?thesis by (auto simp: GET_videos_def missing_key_def)
next
  case (Some k)
  obtain x l where fd: "fetch_data e k (query_region query) (query_category query) = (x, l)"
    by (cases "fetch_data e k (query_region query) (query_category query)")
  show ?thesis
  proof (cases x)
    case (Continue d)
    show ?thesis
    proof (cases d)
      case None
      with Continue fd Some assms show ?thesis
        by (auto simp: GET_videos_def Let_def empty_response_def)
    next
      case its: (Some its)
      obtain y l' where ch: "fetch_channelThumbnails e k (items_or_empty its) = (y, l')"
        by (cases "fetch_channelThumbnails e k (items_or_empty its)")
      show ?thesis
      proof (cases y)
        case (Continue t)
        with ch its \<open>x = Continue d\<close> fd Some assms(1)
        have "r = videos_response e (query_region query) (query_category query)
                             (query_sort query) (query_shorts query) t (items_or_empty its)"
          by (simp add: GET_videos_def Let_def)
        then show ?thesis by blast
      next
        case (Respond z)
        with ch show ?thesis using channels_never_respond [of e k "items_or_empty its" z] by simp
      next
        case Throw
        with ch its \<open>x = Continue d\<close> fd Some assms(1) show ?thesis
          by (simp add: GET_videos_def Let_def)
      qed
    qed
  next
    case (Respond z)
    with fd Some assms(1) have "z = r"
      by (simp add: GET_videos_def Let_def)
    with Respond fd fetch_data_responds [of e k "query_region query" "query_category query" r]
      assms(2)
    show ?thesis by auto
  next
    case Throw
    with fd Some assms(1) show ?thesis by (simp add: GET_videos_def Let_def)
  qed
qed


section \<open>Missing credential\<close>

text \<open>
  Claim C8. On both endpoints, when the server-side credential is absent (the variable is
  unset or empty), the handler answers with status 500 and a JSON body whose \<open>error\<close> field
  names the missing credential, and it has made no upstream call.
\<close>

theorem missing_credential_is_500:
  assumes "YOUTUBE_API_KEY e = None \<or> YOUTUBE_API_KEY e = Some []"
  shows "GET_categories e
           = (Respond \<lparr>status = 500,
                       body = ErrorBody ''Missing YOUTUBE_API_KEY in environment.'' None\<rparr>, [])
       \<and> GET_videos e query
           = (Respond \<lparr>status = 500,
                       body = ErrorBody ''Missing YOUTUBE_API_KEY in environment.'' None\<rparr>, [])"
proof -
  from assms have "credential e = None"
    by (auto simp: credential_def)
  then show ?thesis
    by (simp add: GET_categories_def GET_videos_def missing_key_def)
qed

theorem missing_credential_is_500_witness:
  "GET_categories (sample_env None videos_ok search_hits channels_ok)
     = (Respond \<lparr>status = 500,
                 body = ErrorBody ''Missing YOUTUBE_API_KEY in environment.'' None\<rparr>, [])
   \<and> GET_videos (sample_env (Some []) videos_ok search_hits channels_ok) [(''category'', ''25'')]
     = (Respond \<lparr>status = 500,
                 body = ErrorBody ''Missing YOUTUBE_API_KEY in environment.'' None\<rparr>, [])"
  using missing_credential_is_500 [of "sample_env None videos_ok search_hits channels_ok"]
    missing_credential_is_500 [of "sample_env (Some []) videos_ok search_hits channels_ok"
      "[(''category'', ''25'')]"]
  by (simp add: sample_env_def)


section \<open>Failure of the primary call\<close>





section \<open>Ranking and filtering\<close>

text \<open>
  The comparator orders by a key, so the insertion sort it drives is the library's stable
  \<open>sort_key\<close> on the negated key.
\<close>

lemma insert_by_insort_key:
  assumes "\<And>a b. cmp a b = key b - key a"
  shows "insert_by cmp x ys = insort_key (\<lambda>v. - key v) x ys"
  by (induction ys) (simp_all add: assms)

lemma sort_by_sort_key:
  assumes "\<And>a b. cmp a b = key b - key a"
  shows "sort_by cmp xs = sort_key (\<lambda>v. - key v) xs"
  by (induction xs) (simp_all add: insert_by_insort_key [OF assms])

lemma rank_sort_key:
  "rank e s items = sort_key (\<lambda>i. - getValue e s (stats_of i)) items"
  unfolding rank_def
  by (rule sort_by_sort_key) (simp add: compare_items_def)

lemma rank_sorted:
  "sorted_wrt (\<lambda>a b. getValue e s (stats_of a) \<ge> getValue e s (stats_of b)) (rank e s items)"
proof -
  have "sorted (map (\<lambda>i. - getValue e s (stats_of i)) (rank e s items))"
    unfolding rank_sort_key by (rule sorted_sort_key)
  then show ?thesis by (simp add: sorted_map)
qed

lemma rank_stable:
  "filter (\<lambda>i. getValue e s (stats_of i) = k) (rank e s items)
     = filter (\<lambda>i. getValue e s (stats_of i) = k) items"
proof -
  have "filter (\<lambda>i. - getValue e s (stats_of i) = - k) (rank e s items)
          = filter (\<lambda>i. - getValue e s (stats_of i) = - k) items"
    unfolding rank_sort_key by (rule sort_key_stable)
  then show ?thesis by simp
qed

lemma rank_set: "set (rank e s items) = set items"
  by (simp add: rank_sort_key)

lemma rank_filter: "filter P (rank e s items) = rank e s (filter P items)"
  by (simp add: rank_sort_key filter_sort)

lemma rank_length: "length (rank e s items) = length items"
  by (simp add: rank_sort_key)


lemma getValue_selected: "getValue e s stats = toNumber e (selected_statistic s stats)"
  by (simp add: getValue_def selected_statistic_def)

lemma out_value_present: "out_value e s (present thumbs i) = getValue e s (stats_of i)"
  by (simp add: out_value_def present_def getValue_selected stats_of_def toNumber_def
        selected_statistic_def split: option.splits)

lemma response_items_videos_response:
  "response_items (videos_response e region category s shorts thumbs items)
     = map (present thumbs) (apply_shorts shorts (rank e s items))"
  by (simp add: response_items_def videos_response_def Let_def)

lemma parse_out_duration:
  "parseIsoDuration (Some (out_duration (present thumbs i))) = parseIsoDuration (item_duration i)"
  by (simp add: present_def or_empty_def parseIsoDuration_def split: option.splits)


lemma response_sorted:
  "sorted_wrt (\<lambda>a b. out_value e s a \<ge> out_value e s b)
     (response_items (videos_response e region category s shorts thumbs items))"
proof -
  have "sorted_wrt (\<lambda>a b. getValue e s (stats_of a) \<ge> getValue e s (stats_of b))
          (apply_shorts shorts (rank e s items))"
    using rank_sorted [of e s items] by (simp add: apply_shorts_def sorted_wrt_filter)
  then show ?thesis
    by (simp add: response_items_videos_response sorted_wrt_map out_value_present)
qed

lemma response_not_short:
  "x \<in> set (response_items (videos_response e region category s ''exclude'' thumbs items))
     \<Longrightarrow> 60 \<le> parseIsoDuration (Some (out_duration x))"
  by (auto simp: response_items_videos_response apply_shorts_def not_short_def parse_out_duration)

lemma response_items_error: "body r = ErrorBody m d \<Longrightarrow> response_items r = []"
  by (simp add: response_items_def)

lemma response_items_categories: "body r = CategoriesBody cs \<Longrightarrow> response_items r = []"
  by (simp add: response_items_def)

text \<open>
  Claim C9. For every working set and sort key, ranking and then removing the records under
  60 seconds gives the same sequence as removing them first and ranking afterwards.
\<close>

theorem filter_commutes_with_ranking:
  "apply_shorts ''exclude'' (rank e s items) = rank e s (apply_shorts ''exclude'' items)"
  by (simp add: apply_shorts_def rank_filter)


theorem filter_commutes_with_ranking_witness:
  "map video_id (apply_shorts ''exclude''
      (rank (sample_env (Some ''k'') videos_ok search_hits channels_ok) ''views'' sample_items))
     = [''a'', ''c'']
   \<and> map video_id (rank (sample_env (Some ''k'') videos_ok search_hits channels_ok) ''views''
        (apply_shorts ''exclude'' sample_items)) = [''a'', ''c'']"
proof -
  have "map video_id (rank (sample_env (Some ''k'') videos_ok search_hits channels_ok) ''views''
        (apply_shorts ''exclude'' sample_items)) = [''a'', ''c'']"
    by code_simp
  then show ?thesis
    using filter_commutes_with_ranking
      [of "sample_env (Some ''k'') videos_ok search_hits channels_ok" "''views''" sample_items]
    by simp
qed

text \<open>
  Claim C3. For every working set \<open>items\<close> and every sort key, the item list of the response
  built from it is in non-increasing order of the statistic the key selects (views the view
  count, likes the like count, comments the comment count, any other key the view count),
  where a missing statistic and a value that \<open>Number\<close> maps to \<open>NaN\<close> count as zero; and the
  records of equal value keep the relative order they have in the working set. Every response
  of the handler is so ordered.
\<close>

theorem ranking_is_descending_and_stable:
  fixes out :: "VideoOut list"
  assumes "out = response_items (videos_response e region category s shorts thumbs items)"
  shows "sorted_wrt (\<lambda>a b. out_value e s a \<ge> out_value e s b) out
       \<and> (\<forall>k. filter (\<lambda>x. out_value e s x = k) out
              = filter (\<lambda>x. out_value e s x = k) (map (present thumbs) (apply_shorts shorts items)))
       \<and> toNumber e None = 0
       \<and> (\<forall>v. Number e v = NaN \<longrightarrow> toNumber e (Some v) = 0)
       \<and> (\<forall>r. fst (GET_videos e query) = Respond r \<longrightarrow>
              sorted_wrt (\<lambda>a b. out_value e (query_sort query) a \<ge> out_value e (query_sort query) b)
                (response_items r))"
proof -
  let ?key = "\<lambda>i. getValue e s (stats_of i)"
  have out: "out = map (present thumbs) (apply_shorts shorts (rank e s items))"
    by (simp add: assms response_items_videos_response)
  have "sorted_wrt (\<lambda>a b. ?key a \<ge> ?key b) (apply_shorts shorts (rank e s items))"
    using rank_sorted [of e s items] by (simp add: apply_shorts_def sorted_wrt_filter)
  then have 1: "sorted_wrt (\<lambda>a b. out_value e s a \<ge> out_value e s b) out"
    by (simp add: out sorted_wrt_map out_value_present)
  have 2: "filter (\<lambda>x. out_value e s x = k) out
              = filter (\<lambda>x. out_value e s x = k) (map (present thumbs) (apply_shorts shorts items))"
    for k
  proof -
    have "filter (\<lambda>i. ?key i = k) (apply_shorts shorts (rank e s items))
            = filter (\<lambda>i. ?key i = k) (apply_shorts shorts items)"
    proof (cases "shorts = ''exclude''")
      case True
      have "filter (\<lambda>i. ?key i = k) (filter not_short (rank e s items))
              = filter not_short (filter (\<lambda>i. ?key i = k) (rank e s items))"
        by (simp add: conj_commute)
      also have "\<dots> = filter not_short (filter (\<lambda>i. ?key i = k) items)"
        by (simp only: rank_stable)
      also have "\<dots> = filter (\<lambda>i. ?key i = k) (filter not_short items)"
        by (simp add: conj_commute)
      finally show ?thesis using True by (simp add: apply_shorts_def)
    next
      case False
      then show ?thesis by (simp add: apply_shorts_def rank_stable)
    qed
    then show ?thesis
      by (simp add: out filter_map o_def out_value_present)
  qed
  have 3: "toNumber e None = 0"
    by (simp add: toNumber_def)
  have 4: "Number e v = NaN \<longrightarrow> toNumber e (Some v) = 0" for v
    by (simp add: toNumber_def)
  have 5: "sorted_wrt (\<lambda>a b. out_value e (query_sort query) a \<ge> out_value e (query_sort query) b)
             (response_items r)"
    if r: "fst (GET_videos e query) = Respond r" for r
  proof (cases "body r")
    case (VideosBody p)
    from GET_videos_success_shape [OF r VideosBody] obtain t its
      where "r = videos_response e (query_region query) (query_category query)
                   (query_sort query) (query_shorts query) t its"
      by blast
    then show ?thesis by (simp only: response_sorted)
  qed (simp_all add: response_items_error response_items_categories)
  from 1 2 3 4 5 show ?thesis by blast
qed


theorem ranking_is_descending_and_stable_witness:
  "sorted_wrt (\<lambda>a b. out_value (sample_env (Some ''k'') videos_ok search_hits channels_ok) ''views'' a
                     \<ge> out_value (sample_env (Some ''k'') videos_ok search_hits channels_ok) ''views'' b)
     (response_items (videos_response (sample_env (Some ''k'') videos_ok search_hits channels_ok)
        ''KR'' ''all'' ''views'' ''include'' Map.empty sample_items))
   \<and> map out_id (response_items (videos_response
        (sample_env (Some ''k'') videos_ok search_hits channels_ok)
        ''KR'' ''all'' ''views'' ''include'' Map.empty sample_items)) = [''b'', ''a'', ''c'']
   \<and> Number (sample_env (Some ''k'') videos_ok search_hits channels_ok) ''abc'' = NaN
   \<and> toNumber (sample_env (Some ''k'') videos_ok search_hits channels_ok) (Some ''abc'') = 0"
proof -
  let ?e = "sample_env (Some ''k'') videos_ok search_hits channels_ok"
  have ids: "map out_id (response_items (videos_response ?e
        ''KR'' ''all'' ''views'' ''include'' Map.empty sample_items)) = [''b'', ''a'', ''c'']"
    by code_simp
  have nan: "Number ?e ''abc'' = NaN"
    by code_simp
  note inst = ranking_is_descending_and_stable
    [OF refl, where e = ?e and s = "''views''" and region = "''KR''" and category = "''all''"
       and shorts = "''include''" and thumbs = Map.empty and items = sample_items
       and query = "[]"]
  from inst have "sorted_wrt (\<lambda>a b. out_value ?e ''views'' a \<ge> out_value ?e ''views'' b)
     (response_items (videos_response ?e ''KR'' ''all'' ''views'' ''include'' Map.empty sample_items))"
    by blast
  moreover from inst nan have "toNumber ?e (Some ''abc'') = 0"
    by blast
  ultimately show ?thesis using ids nan by blast
qed

text \<open>
  Claim C4. For every working set, with \<open>shorts = exclude\<close> the returned item list is made of
  exactly the ranked records whose parsed duration is at least 60 seconds, so every returned
  record has a parsed duration of at least 60; with \<open>shorts = include\<close> it is made of all the
  ranked records, and ranking neither removes nor adds a record. Every record in a response
  of the handler to a request with \<open>shorts = exclude\<close> has a parsed duration of at least 60.
\<close>

theorem shorts_filter_exact:
  fixes out :: "VideoOut list"
  assumes "out = response_items (videos_response e region category s shorts thumbs items)"
  shows "(shorts = ''exclude'' \<longrightarrow>
            out = map (present thumbs)
                    (filter (\<lambda>i. 60 \<le> parseIsoDuration (item_duration i)) (rank e s items))
          \<and> (\<forall>x \<in> set out. 60 \<le> parseIsoDuration (Some (out_duration x))))
       \<and> (shorts = ''include'' \<longrightarrow> out = map (present thumbs) (rank e s items))
       \<and> set (rank e s items) = set items
       \<and> length (rank e s items) = length items
       \<and> (\<forall>r. fst (GET_videos e query) = Respond r \<and> query_shorts query = ''exclude'' \<longrightarrow>
              (\<forall>x \<in> set (response_items r). 60 \<le> parseIsoDuration (Some (out_duration x))))"
proof -
  have out: "out = map (present thumbs) (apply_shorts shorts (rank e s items))"
    by (simp add: assms response_items_videos_response)
  have ns: "not_short = (\<lambda>i. 60 \<le> parseIsoDuration (item_duration i))"
    by (rule ext) (simp add: not_short_def)
  have 1: "shorts = ''exclude'' \<Longrightarrow> out = map (present thumbs)
                    (filter (\<lambda>i. 60 \<le> parseIsoDuration (item_duration i)) (rank e s items))"
    by (simp add: out apply_shorts_def ns)
  have 2: "shorts = ''exclude'' \<Longrightarrow> \<forall>x \<in> set out. 60 \<le> parseIsoDuration (Some (out_duration x))"
    by (auto simp: out apply_shorts_def ns parse_out_duration)
  have 3: "shorts = ''include'' \<Longrightarrow> out = map (present thumbs) (rank e s items)"
    by (simp add: out apply_shorts_def)
  have 4: "\<forall>x \<in> set (response_items r). 60 \<le> parseIsoDuration (Some (out_duration x))"
    if r: "fst (GET_videos e query) = Respond r" and ex: "query_shorts query = ''exclude''" for r
  proof (cases "body r")
    case (VideosBody p)
    from GET_videos_success_shape [OF r VideosBody] obtain t its
      where "r = videos_response e (query_region query) (query_category query)
                   (query_sort query) (query_shorts query) t its"
      by blast
    then show ?thesis using ex response_not_short by simp
  qed (simp_all add: response_items_error response_items_categories)
  from 1 2 3 4 show ?thesis
    by (simp add: rank_set rank_length)
qed


theorem shorts_filter_exact_witness:
  "map out_id (response_items (videos_response
      (sample_env (Some ''k'') videos_ok search_hits channels_ok)
      ''KR'' ''all'' ''views'' ''exclude'' Map.empty sample_items)) = [''a'', ''c'']
   \<and> map (\<lambda>x. parseIsoDuration (Some (out_duration x))) (response_items (videos_response
          (sample_env (Some ''k'') videos_ok search_hits channels_ok)
          ''KR'' ''all'' ''views'' ''exclude'' Map.empty sample_items)) = [120, 3600]
   \<and> map out_id (response_items (videos_response
      (sample_env (Some ''k'') videos_ok search_hits channels_ok)
      ''KR'' ''all'' ''views'' ''include'' Map.empty sample_items)) = [''b'', ''a'', ''c'']"
proof -
  let ?e = "sample_env (Some ''k'') videos_ok search_hits channels_ok"
  have r: "map video_id (rank ?e ''views'' sample_items) = [''b'', ''a'', ''c'']"
    "map video_id (filter (\<lambda>i. 60 \<le> parseIsoDuration (item_duration i))
       (rank ?e ''views'' sample_items)) = [''a'', ''c'']"
    by code_simp+
  have p: "out_id \<circ> present Map.empty = video_id"
    by (rule ext) (simp add: present_def)
  have d: "map (\<lambda>x. parseIsoDuration (Some (out_duration x)))
       (map (present Map.empty) (filter (\<lambda>i. 60 \<le> parseIsoDuration (item_duration i))
          (rank ?e ''views'' sample_items))) = [120, 3600]"
    by code_simp
  note ex = shorts_filter_exact
    [OF refl, where e = ?e and s = "''views''" and region = "''KR''" and category = "''all''"
       and shorts = "''exclude''" and thumbs = Map.empty and items = sample_items and query = "[]"]
  note inc = shorts_filter_exact
    [OF refl, where e = ?e and s = "''views''" and region = "''KR''" and category = "''all''"
       and shorts = "''include''" and thumbs = Map.empty and items = sample_items and query = "[]"]
  from ex have 1: "response_items (videos_response ?e ''KR'' ''all'' ''views'' ''exclude''
        Map.empty sample_items)
      = map (present Map.empty) (filter (\<lambda>i. 60 \<le> parseIsoDuration (item_duration i))
          (rank ?e ''views'' sample_items))"
    by blast
  from inc have 3: "response_items (videos_response ?e ''KR'' ''all'' ''views'' ''include''
        Map.empty sample_items) = map (present Map.empty) (rank ?e ''views'' sample_items)"
    by blast
  have "map out_id (response_items (videos_response ?e ''KR'' ''all'' ''views'' ''exclude''
        Map.empty sample_items)) = [''a'', ''c'']"
    by (simp add: 1 p r)
  moreover have "map (\<lambda>x. parseIsoDuration (Some (out_duration x)))
      (response_items (videos_response ?e ''KR'' ''all'' ''views'' ''exclude''
        Map.empty sample_items)) = [120, 3600]"
    by (simp only: 1 d)
  moreover have "map out_id (response_items (videos_response ?e ''KR'' ''all'' ''views'' ''include''
        Map.empty sample_items)) = [''b'', ''a'', ''c'']"
    by (simp add: 3 p r)
  ultimately show ?thesis by blast
qed


section \<open>The search fallback\<close>

lemma not_found_not_ok: "res_status r = 404 \<Longrightarrow> \<not> ok r"
  by (simp add: ok_def)

lemma channels_of_nothing: "fetch_channelThumbnails e k [] = (Continue Map.empty, [])"
  by (simp add: fetch_channelThumbnails_def channelIds_of_def distinct_in_order_def
        List.map_filter_def)

lemma empty_videos_response:
  "videos_response e region category s shorts thumbs []
     = \<lparr>status = 200,
        body = VideosBody \<lparr>p_items = [], p_fetchedAt = now e, p_region = region,
                          p_category = category, p_sort = s, p_shorts = shorts\<rparr>\<rparr>"
  by (simp add: videos_response_def rank_def apply_shorts_def)

lemma GET_videos_working_set:
  assumes "credential e = Some k"
    and "fetch_data e k (query_region query) (query_category query) = (Continue (Some its), calls)"
  shows "GET_videos e query
           = bind (Continue (), calls) (\<lambda>_.
               bind (fetch_channelThumbnails e k (items_or_empty its)) (\<lambda>thumbs.
                 (Respond (videos_response e (query_region query) (query_category query)
                            (query_sort query) (query_shorts query) thumbs (items_or_empty its)), [])))"
  using assms by (simp add: GET_videos_def Let_def split: prod.splits)

lemma GET_videos_nothing:
  assumes "credential e = Some k"
    and "fetch_data e k (query_region query) (query_category query) = (Continue (Some (Some [])), calls)"
  shows "GET_videos e query
           = (Respond \<lparr>status = 200,
                body = VideosBody \<lparr>p_items = [], p_fetchedAt = now e, p_region = query_region query,
                          p_category = query_category query, p_sort = query_sort query,
                          p_shorts = query_shorts query\<rparr>\<rparr>, calls)"
  using GET_videos_working_set [OF assms]
  by (simp add: items_or_empty_def channels_of_nothing empty_videos_response)

lemma fetch_data_fallback:
  assumes "fetch_videos e (primary_params k region category) = Some response"
    and "res_status response = 404" and "category \<noteq> ''all''"
  shows "fetch_data e k region category
           = bind (Continue (), [(VideosApi, primary_params k region category)]) (\<lambda>_.
                bind (fallback_ids e k region category) (\<lambda>ids.
                  bind (fetchByIds e k ids) (\<lambda>items. (Continue (Some (Some items)), []))))"
  using assms by (simp add: fetch_data_def Let_def not_found_not_ok del: bind.simps)

lemma fallback_ids_first_failed:
  assumes "fetch_search e (buildSearchParams k region category True) = Some s1"
    and "\<not> ok s1"
  shows "fallback_ids e k region category
           = (upstream_error s1, [(SearchApi, buildSearchParams k region category True)])"
  using assms by (simp add: fallback_ids_def Let_def)

lemma fallback_ids_first_found:
  assumes "fetch_search e (buildSearchParams k region category True) = Some s1"
    and "ok s1" and "res_json s1 = Object its1" and "search_ids its1 \<noteq> []"
  shows "fallback_ids e k region category
           = (Continue (search_ids its1), [(SearchApi, buildSearchParams k region category True)])"
  using assms by (simp add: fallback_ids_def Let_def)

lemma fallback_ids_second_failed:
  assumes "fetch_search e (buildSearchParams k region category True) = Some s1"
    and "ok s1" and "res_json s1 = Object its1" and "search_ids its1 = []"
    and "fetch_search e (buildSearchParams k region category False) = Some s2"
    and "\<not> ok s2"
  shows "fallback_ids e k region category
           = (Continue [], [(SearchApi, buildSearchParams k region category True),
                            (SearchApi, buildSearchParams k region category False)])"
  using assms by (simp add: fallback_ids_def search_again_def Let_def)

lemma fallback_ids_second_done:
  assumes "fetch_search e (buildSearchParams k region category True) = Some s1"
    and "ok s1" and "res_json s1 = Object its1" and "search_ids its1 = []"
    and "fetch_search e (buildSearchParams k region category False) = Some s2"
    and "ok s2" and "res_json s2 = Object its2"
  shows "fallback_ids e k region category
           = (Continue (search_ids its2), [(SearchApi, buildSearchParams k region category True),
                            (SearchApi, buildSearchParams k region category False)])"
  using assms by (simp add: fallback_ids_def search_again_def Let_def)

lemma fetchByIds_none: "fetchByIds e k [] = (Continue [], [])"
  by (simp add: fetchByIds_def)

lemma fetchByIds_failed:
  assumes "ids \<noteq> []" and "fetch_videos e (fetchByIds_params k ids) = Some h" and "\<not> ok h"
  shows "fetchByIds e k ids = (Continue [], [(VideosApi, fetchByIds_params k ids)])"
  using assms by (simp add: fetchByIds_def Let_def)

lemma fetchByIds_done:
  assumes "ids \<noteq> []" and "fetch_videos e (fetchByIds_params k ids) = Some h" and "ok h"
    and "res_json h = Object its"
  shows "fetchByIds e k ids = (Continue (items_or_empty its), [(VideosApi, fetchByIds_params k ids)])"
  using assms by (simp add: fetchByIds_def Let_def)

text \<open>
  Claim C6. When the primary call answers 404 for a category other than \<open>all\<close> and both
  searches, with and without the region, succeed and give no video identifier, the handler
  answers with status 200 and an empty item list, and the body repeats the requested region,
  category, sort and shorts parameters.
\<close>

theorem empty_fallback_succeeds:
  assumes "credential e = Some apiKey"
    and "region = query_region query" and "category = query_category query"
    and "params = primary_params apiKey region category"
    and "fetch_videos e params = Some primary"
    and "res_status primary = 404" and "category \<noteq> ''all''"
    and "sp1 = buildSearchParams apiKey region category True"
    and "fetch_search e sp1 = Some s1"
    and "ok s1" and "res_json s1 = Object its1" and "search_ids its1 = []"
    and "sp2 = buildSearchParams apiKey region category False"
    and "fetch_search e sp2 = Some s2"
    and "ok s2" and "res_json s2 = Object its2" and "search_ids its2 = []"
  shows "GET_videos e query
           = (Respond \<lparr>status = 200,
                body = VideosBody \<lparr>p_items = [], p_fetchedAt = now e, p_region = region,
                          p_category = category, p_sort = query_sort query,
                          p_shorts = query_shorts query\<rparr>\<rparr>,
              [(VideosApi, params), (SearchApi, sp1), (SearchApi, sp2)])"
proof -
  have "fallback_ids e apiKey region category = (Continue [], [(SearchApi, sp1), (SearchApi, sp2)])"
    using fallback_ids_second_done [of e apiKey region category s1 its1 s2 its2] assms by simp
  then have "fetch_data e apiKey region category
               = (Continue (Some (Some [])), [(VideosApi, params), (SearchApi, sp1), (SearchApi, sp2)])"
    using fetch_data_fallback [of e apiKey region category primary] assms
    by (simp add: fetchByIds_none)
  then show ?thesis
    using GET_videos_nothing [of e apiKey query] assms by simp
qed

theorem empty_fallback_succeeds_witness:
  "GET_videos (sample_env (Some ''k'') videos_404 search_none channels_ok)
       [(''category'', ''25''), (''sort'', ''likes'')]
     = (Respond \<lparr>status = 200,
          body = VideosBody \<lparr>p_items = [],
                    p_fetchedAt = now (sample_env (Some ''k'') videos_404 search_none channels_ok),
                    p_region = ''KR'', p_category = ''25'',
                    p_sort = query_sort [(''category'', ''25''), (''sort'', ''likes'')],
                    p_shorts = query_shorts [(''category'', ''25''), (''sort'', ''likes'')]\<rparr>\<rparr>,
        [(VideosApi, primary_params ''k'' ''KR'' ''25''),
         (SearchApi, buildSearchParams ''k'' ''KR'' ''25'' True),
         (SearchApi, buildSearchParams ''k'' ''KR'' ''25'' False)])"
  by (rule empty_fallback_succeeds
        [where ?its1.0 = "Some []" and ?its2.0 = "Some []"
           and primary = "\<lparr>res_status = 404, res_text = Some ''no such category'', res_json = Invalid\<rparr>"
           and ?s1.0 = "\<lparr>res_status = 200, res_text = Some [], res_json = Object (Some [])\<rparr>"
           and ?s2.0 = "\<lparr>res_status = 200, res_text = Some [], res_json = Object (Some [])\<rparr>"];
      code_simp)

text \<open>
  Claim C10. When the fallback is taken and the region-scoped search succeeded, then in both
  of these cases the handler answers with status 200 and an empty item list instead of an
  error: the region-scoped search gave no identifier and the second search answers with a
  status that is not a success; or the region-scoped search gave identifiers and the
  videos-by-id call answers with a status that is not a success.
\<close>

theorem fallback_errors_swallowed:
  assumes "credential e = Some apiKey"
    and "region = query_region query" and "category = query_category query"
    and "params = primary_params apiKey region category"
    and "fetch_videos e params = Some primary"
    and "res_status primary = 404" and "category \<noteq> ''all''"
    and "sp1 = buildSearchParams apiKey region category True"
    and "fetch_search e sp1 = Some s1"
    and "ok s1" and "res_json s1 = Object its1"
    and "sp2 = buildSearchParams apiKey region category False"
    and "hp = fetchByIds_params apiKey (search_ids its1)"
    and "empty_ok = \<lparr>status = 200,
                body = VideosBody \<lparr>p_items = [], p_fetchedAt = now e, p_region = region,
                          p_category = category, p_sort = query_sort query,
                          p_shorts = query_shorts query\<rparr>\<rparr>"
  shows "(search_ids its1 = [] \<and> fetch_search e sp2 = Some s2 \<and> \<not> ok s2
            \<longrightarrow> GET_videos e query
                  = (Respond empty_ok, [(VideosApi, params), (SearchApi, sp1), (SearchApi, sp2)]))
       \<and> (search_ids its1 \<noteq> [] \<and> fetch_videos e hp = Some h \<and> \<not> ok h
            \<longrightarrow> GET_videos e query
                  = (Respond empty_ok, [(VideosApi, params), (SearchApi, sp1), (VideosApi, hp)]))"
proof (rule conjI; rule impI)
  assume a: "search_ids its1 = [] \<and> fetch_search e sp2 = Some s2 \<and> \<not> ok s2"
  then have "fallback_ids e apiKey region category = (Continue [], [(SearchApi, sp1), (SearchApi, sp2)])"
    using fallback_ids_second_failed [of e apiKey region category s1 its1 s2] assms by simp
  then have "fetch_data e apiKey region category
               = (Continue (Some (Some [])), [(VideosApi, params), (SearchApi, sp1), (SearchApi, sp2)])"
    using fetch_data_fallback [of e apiKey region category primary] assms
    by (simp add: fetchByIds_none)
  then show "GET_videos e query
                  = (Respond empty_ok, [(VideosApi, params), (SearchApi, sp1), (SearchApi, sp2)])"
    using GET_videos_nothing [of e apiKey query] assms by simp
next
  assume a: "search_ids its1 \<noteq> [] \<and> fetch_videos e hp = Some h \<and> \<not> ok h"
  then have "fallback_ids e apiKey region category = (Continue (search_ids its1), [(SearchApi, sp1)])"
    using fallback_ids_first_found [of e apiKey region category s1 its1] assms by simp
  moreover have "fetchByIds e apiKey (search_ids its1) = (Continue [], [(VideosApi, hp)])"
    using a fetchByIds_failed [of "search_ids its1" e apiKey h] assms by simp
  ultimately have "fetch_data e apiKey region category
               = (Continue (Some (Some [])), [(VideosApi, params), (SearchApi, sp1), (VideosApi, hp)])"
    using fetch_data_fallback [of e apiKey region category primary] assms
    by simp
  then show "GET_videos e query
                  = (Respond empty_ok, [(VideosApi, params), (SearchApi, sp1), (VideosApi, hp)])"
    using GET_videos_nothing [of e apiKey query] assms by simp
qed

theorem fallback_errors_swallowed_witness:
  "GET_videos (sample_env (Some ''k'') videos_404 search_region_only channels_ok)
       [(''category'', ''25'')]
     = (Respond \<lparr>status = 200,
          body = VideosBody \<lparr>p_items = [], p_fetchedAt = ''2024-05-01T00:00:00.000Z'',
                    p_region = ''KR'', p_category = ''25'', p_sort = ''views'',
                    p_shorts = ''include''\<rparr>\<rparr>,
        [(VideosApi, primary_params ''k'' ''KR'' ''25''),
         (SearchApi, buildSearchParams ''k'' ''KR'' ''25'' True),
         (SearchApi, buildSearchParams ''k'' ''KR'' ''25'' False)])
   \<and> GET_videos (sample_env (Some ''k'') videos_down search_hits channels_ok)
       [(''category'', ''25'')]
     = (Respond \<lparr>status = 200,
          body = VideosBody \<lparr>p_items = [], p_fetchedAt = ''2024-05-01T00:00:00.000Z'',
                    p_region = ''KR'', p_category = ''25'', p_sort = ''views'',
                    p_shorts = ''include''\<rparr>\<rparr>,
        [(VideosApi, primary_params ''k'' ''KR'' ''25''),
         (SearchApi, buildSearchParams ''k'' ''KR'' ''25'' True),
         (VideosApi, fetchByIds_params ''k'' [''a'', ''b''])])"
proof -
  let ?q = "[(''category'', ''25'')]"
  let ?e1 = "sample_env (Some ''k'') videos_404 search_region_only channels_ok"
  let ?e2 = "sample_env (Some ''k'') videos_down search_hits channels_ok"
  let ?p = "primary_params ''k'' ''KR'' ''25''"
  let ?sp1 = "buildSearchParams ''k'' ''KR'' ''25'' True"
  let ?sp2 = "buildSearchParams ''k'' ''KR'' ''25'' False"
  let ?nf = "\<lparr>res_status = 404, res_text = Some ''no such category'',
              res_json = Invalid :: VideoItem json\<rparr>"
  let ?none = "\<lparr>res_status = 200, res_text = Some [],
                res_json = Object (Some ([] :: SearchItem list))\<rparr>"
  let ?hits = "\<lparr>res_status = 200, res_text = Some [],
                res_json = Object (Some [sample_hit ''a'', sample_hit ''b''])\<rparr>"
  let ?s500 = "\<lparr>res_status = 500, res_text = Some ''backend error'',
                res_json = Invalid :: SearchItem json\<rparr>"
  let ?v503 = "\<lparr>res_status = 503, res_text = Some ''unavailable'',
                res_json = Invalid :: VideoItem json\<rparr>"
  let ?ok = "\<lparr>status = 200,
          body = VideosBody \<lparr>p_items = [], p_fetchedAt = ''2024-05-01T00:00:00.000Z'',
                    p_region = ''KR'', p_category = ''25'', p_sort = ''views'',
                    p_shorts = ''include''\<rparr>\<rparr>"
  have 1: "(search_ids (Some []) = [] \<and> fetch_search ?e1 ?sp2 = Some ?s500 \<and> \<not> ok ?s500
            \<longrightarrow> GET_videos ?e1 ?q = (Respond ?ok, [(VideosApi, ?p), (SearchApi, ?sp1), (SearchApi, ?sp2)]))
       \<and> (search_ids (Some []) \<noteq> []
              \<and> fetch_videos ?e1 (fetchByIds_params ''k'' (search_ids (Some []))) = Some ?v503
              \<and> \<not> ok ?v503
            \<longrightarrow> GET_videos ?e1 ?q
                  = (Respond ?ok, [(VideosApi, ?p), (SearchApi, ?sp1),
                       (VideosApi, fetchByIds_params ''k'' (search_ids (Some [])))]))"
    by (rule fallback_errors_swallowed
          [where region = "''KR''" and category = "''25''" and primary = ?nf and ?s1.0 = ?none];
        code_simp)
  have 2: "(search_ids (Some [sample_hit ''a'', sample_hit ''b'']) = []
              \<and> fetch_search ?e2 ?sp2 = Some ?s500 \<and> \<not> ok ?s500
            \<longrightarrow> GET_videos ?e2 ?q = (Respond ?ok, [(VideosApi, ?p), (SearchApi, ?sp1), (SearchApi, ?sp2)]))
       \<and> (search_ids (Some [sample_hit ''a'', sample_hit ''b'']) \<noteq> []
              \<and> fetch_videos ?e2 (fetchByIds_params ''k''
                         (search_ids (Some [sample_hit ''a'', sample_hit ''b'']))) = Some ?v503
              \<and> \<not> ok ?v503
            \<longrightarrow> GET_videos ?e2 ?q
                  = (Respond ?ok, [(VideosApi, ?p), (SearchApi, ?sp1),
                       (VideosApi, fetchByIds_params ''k''
                         (search_ids (Some [sample_hit ''a'', sample_hit ''b''])))]))"
    by (rule fallback_errors_swallowed
          [where region = "''KR''" and category = "''25''" and primary = ?nf and ?s1.0 = ?hits];
        code_simp)
  have a: "search_ids (Some ([] :: SearchItem list)) = []"
    "fetch_search ?e1 ?sp2 = Some ?s500" "\<not> ok ?s500"
    by code_simp+
  have b: "search_ids (Some [sample_hit ''a'', sample_hit ''b'']) = [''a'', ''b'']"
    "fetch_videos ?e2 (fetchByIds_params ''k'' [''a'', ''b'']) = Some ?v503" "\<not> ok ?v503"
    by code_simp+
  from 1 a have "GET_videos ?e1 ?q
                  = (Respond ?ok, [(VideosApi, ?p), (SearchApi, ?sp1), (SearchApi, ?sp2)])"
    by blast
  moreover from 2 b have "GET_videos ?e2 ?q
                  = (Respond ?ok, [(VideosApi, ?p), (SearchApi, ?sp1),
                       (VideosApi, fetchByIds_params ''k'' [''a'', ''b''])])"
    by simp
  ultimately show ?thesis by blast
qed


section \<open>The fallback procedure, step by step\<close>

lemma search_params_region:
  "sp_get (buildSearchParams k region category True) ''videoCategoryId'' = Some category"
  "sp_get (buildSearchParams k region category True) ''regionCode'' = Some region"
  "sp_get (buildSearchParams k region category True) ''order'' = Some ''viewCount''"
  "sp_get (buildSearchParams k region category True) ''maxResults'' = Some ''24''"
  "buildSearchParams k region category False
     = filter (\<lambda>p. fst p \<noteq> ''regionCode'') (buildSearchParams k region category True)"
  by (simp_all add: buildSearchParams_def sp_get_def MAX_RESULTS_def decimal_digits.simps digit_char_def)

lemma hydrate_params:
  "sp_get (fetchByIds_params k ids) ''id'' = Some (join_comma ids)"
  "sp_get (fetchByIds_params k ids) ''maxResults'' = Some ''24''"
  by (simp_all add: fetchByIds_params_def sp_get_def MAX_RESULTS_def decimal_digits.simps digit_char_def)

lemma fallback_ids_first_call:
  "\<exists>rest. snd (fallback_ids e k region category)
            = (SearchApi, buildSearchParams k region category True) # rest"
  by (auto simp: fallback_ids_def Let_def snd_bind split: option.splits json.splits prod.splits
        simp del: bind.simps simp add: bind_Continue)

lemma fallback_calls_prefix:
  assumes "fetch_videos e (primary_params k region category) = Some response"
    and "res_status response = 404" and "category \<noteq> ''all''"
  shows "\<exists>rest. snd (fetch_data e k region category)
            = (VideosApi, primary_params k region category)
              # (SearchApi, buildSearchParams k region category True) # rest"
proof -
  obtain rest where "snd (fallback_ids e k region category)
            = (SearchApi, buildSearchParams k region category True) # rest"
    using fallback_ids_first_call by blast
  then show ?thesis
    using fetch_data_fallback [OF assms] by (simp add: snd_bind del: bind.simps)
qed

lemma GET_videos_responds_early:
  assumes "credential e = Some k"
    and "fetch_data e k (query_region query) (query_category query) = (Respond r, calls)"
  shows "GET_videos e query = (Respond r, calls)"
  using assms by (simp add: GET_videos_def Let_def)

text \<open>
  Claim C1, as stated, says that every request whose primary call answers 404 for a category
  other than \<open>all\<close> ends with the collected identifiers hydrated by a videos-by-id call. With
  the region-scoped search denied, the handler returns the search's status and body as an
  error after two calls, and no videos-by-id call is made.
\<close>

theorem fallback_procedure_counterexample:
  "fetch_videos (sample_env (Some ''k'') videos_404 search_denied channels_ok)
       (primary_params ''k'' (query_region [(''category'', ''25'')])
          (query_category [(''category'', ''25'')]))
     = Some \<lparr>res_status = 404, res_text = Some ''no such category'', res_json = Invalid\<rparr>
   \<and> query_category [(''category'', ''25'')] \<noteq> ''all''
   \<and> GET_videos (sample_env (Some ''k'') videos_404 search_denied channels_ok) [(''category'', ''25'')]
     = (Respond \<lparr>status = 403, body = ErrorBody ''YouTube API error'' (Some ''quota exceeded'')\<rparr>,
        [(VideosApi, primary_params ''k'' ''KR'' ''25''),
         (SearchApi, buildSearchParams ''k'' ''KR'' ''25'' True)])"
  by code_simp

text \<open>
  Claim C1, amended. When the primary call answers 404 for a category other than \<open>all\<close>, the
  handler issues the search scoped to the category and the region, ordered by view count,
  with page size 24. If that search answers with a status that is not a success and that a
  response with a body can carry (300 to 599, other than 304), its status and body text are
  returned as an error and no further call is made. Otherwise, if it succeeds and gives
  no video identifier, the same search is issued exactly once more without the region; its
  identifiers are taken when it succeeds. If the collected identifier list is not empty, one
  videos-by-id call carries all of them, comma-joined, with page size 24, and its items (none
  when that call answers with a status that is not a success) become the working set; if the
  list is empty no such call is made and the working set is empty. (\<open>fetch_data\<close> is the
  handler from the primary call to the working set, which \<open>GET_videos_working_set\<close> hands to
  the rest of the handler.)
\<close>

theorem fallback_procedure:
  assumes cred: "credential e = Some apiKey"
    and query: "region = query_region query" "category = query_category query"
    and params: "params = primary_params apiKey region category"
    and primary: "fetch_videos e params = Some primary" "res_status primary = 404"
      "category \<noteq> ''all''"
    and sp: "sp1 = buildSearchParams apiKey region category True"
      "sp2 = buildSearchParams apiKey region category False"
    and s1: "fetch_search e sp1 = Some s1"
    and ids: "ids = (if search_ids its1 \<noteq> [] then search_ids its1
                else if ok s2 then search_ids its2 else [])"
    and hp: "hp = fetchByIds_params apiKey ids"
  shows "sp_get sp1 ''videoCategoryId'' = Some category \<and> sp_get sp1 ''regionCode'' = Some region
       \<and> sp_get sp1 ''order'' = Some ''viewCount'' \<and> sp_get sp1 ''maxResults'' = Some ''24''
       \<and> sp2 = filter (\<lambda>p. fst p \<noteq> ''regionCode'') sp1
       \<and> sp_get hp ''id'' = Some (join_comma ids) \<and> sp_get hp ''maxResults'' = Some ''24''
       \<and> (\<exists>rest. snd (GET_videos e query) = (VideosApi, params) # (SearchApi, sp1) # rest)
       \<and> (\<not> ok s1 \<and> res_text s1 = Some message
            \<and> 300 \<le> res_status s1 \<and> res_status s1 \<le> 599 \<and> res_status s1 \<noteq> 304 \<longrightarrow>
            GET_videos e query
              = (Respond \<lparr>status = res_status s1,
                          body = ErrorBody ''YouTube API error'' (Some message)\<rparr>,
                 [(VideosApi, params), (SearchApi, sp1)]))
       \<and> (ok s1 \<and> res_json s1 = Object its1
            \<and> (search_ids its1 = [] \<longrightarrow>
                  fetch_search e sp2 = Some s2 \<and> (ok s2 \<longrightarrow> res_json s2 = Object its2))
            \<and> (ids \<noteq> [] \<longrightarrow> fetch_videos e hp = Some h \<and> (ok h \<longrightarrow> res_json h = Object itsh))
            \<longrightarrow>
            fetch_data e apiKey region category
              = (Continue (Some (Some (if ids \<noteq> [] \<and> ok h then items_or_empty itsh else []))),
                 [(VideosApi, params), (SearchApi, sp1)]
                 @ (if search_ids its1 = [] then [(SearchApi, sp2)] else [])
                 @ (if ids \<noteq> [] then [(VideosApi, hp)] else [])))"
proof -
  have primary': "fetch_videos e (primary_params apiKey region category) = Some primary"
    using primary(1) params by simp
  have s1': "fetch_search e (buildSearchParams apiKey region category True) = Some s1"
    using s1 sp(1) by simp
  note fd = fetch_data_fallback [OF primary' primary(2,3)]
  have p: "sp_get sp1 ''videoCategoryId'' = Some category \<and> sp_get sp1 ''regionCode'' = Some region
       \<and> sp_get sp1 ''order'' = Some ''viewCount'' \<and> sp_get sp1 ''maxResults'' = Some ''24''
       \<and> sp2 = filter (\<lambda>p. fst p \<noteq> ''regionCode'') sp1
       \<and> sp_get hp ''id'' = Some (join_comma ids) \<and> sp_get hp ''maxResults'' = Some ''24''"
    using search_params_region [of apiKey region category] hydrate_params [of apiKey ids]
    by (simp add: sp hp)
  have pre: "\<exists>rest. snd (GET_videos e query) = (VideosApi, params) # (SearchApi, sp1) # rest"
  proof -
    obtain rest where "snd (fetch_data e apiKey region category)
                         = (VideosApi, params) # (SearchApi, sp1) # rest"
      using fallback_calls_prefix [OF primary' primary(2,3)] params sp(1) by auto
    then show ?thesis
      using GET_videos_calls [OF cred, of query] query by simp
  qed
  have err: "GET_videos e query
              = (Respond \<lparr>status = res_status s1,
                          body = ErrorBody ''YouTube API error'' (Some message)\<rparr>,
                 [(VideosApi, params), (SearchApi, sp1)])"
    if a: "\<not> ok s1 \<and> res_text s1 = Some message
            \<and> 300 \<le> res_status s1 \<and> res_status s1 \<le> 599 \<and> res_status s1 \<noteq> 304"
  proof -
    from a have "upstream_error s1
           = (Respond \<lparr>status = res_status s1,
                       body = ErrorBody ''YouTube API error'' (Some message)\<rparr> :: string list step)"
      using not_ok_status [of s1] by (simp add: upstream_error_text)
    then have "fetch_data e apiKey region category
              = (Respond \<lparr>status = res_status s1,
                          body = ErrorBody ''YouTube API error'' (Some message)\<rparr>,
                 [(VideosApi, params), (SearchApi, sp1)])"
      using a fd fallback_ids_first_failed [OF s1'] params sp(1)
      by simp
    then show ?thesis
      using GET_videos_responds_early [OF cred, of query] query by simp
  qed
  have run: "fetch_data e apiKey region category
              = (Continue (Some (Some (if ids \<noteq> [] \<and> ok h then items_or_empty itsh else []))),
                 [(VideosApi, params), (SearchApi, sp1)]
                 @ (if search_ids its1 = [] then [(SearchApi, sp2)] else [])
                 @ (if ids \<noteq> [] then [(VideosApi, hp)] else []))"
    if a: "ok s1" "res_json s1 = Object its1"
      and b: "search_ids its1 = [] \<longrightarrow>
                fetch_search e sp2 = Some s2 \<and> (ok s2 \<longrightarrow> res_json s2 = Object its2)"
      and c: "ids \<noteq> [] \<longrightarrow> fetch_videos e hp = Some h \<and> (ok h \<longrightarrow> res_json h = Object itsh)"
  proof -
    have fb: "fallback_ids e apiKey region category
                = (Continue ids, (SearchApi, sp1) # (if search_ids its1 = [] then [(SearchApi, sp2)] else []))"
    proof (cases "search_ids its1 = []")
      case False
      then show ?thesis
        using fallback_ids_first_found [OF s1' a] sp ids by simp
    next
      case True
      with b have s2: "fetch_search e (buildSearchParams apiKey region category False) = Some s2"
        using sp(2) by simp
      show ?thesis
      proof (cases "ok s2")
        case ok2: True
        with True b have "res_json s2 = Object its2" by simp
        then show ?thesis
          using fallback_ids_second_done [OF s1' a True s2 ok2] True ok2 sp ids by simp
      next
        case False
        then show ?thesis
          using fallback_ids_second_failed [OF s1' a True s2] True sp ids by simp
      qed
    qed
    have hy: "fetchByIds e apiKey ids
                = (Continue (if ids \<noteq> [] \<and> ok h then items_or_empty itsh else []),
                   if ids \<noteq> [] then [(VideosApi, hp)] else [])"
    proof (cases "ids = []")
      case True
      then show ?thesis by (simp add: fetchByIds_none)
    next
      case False
      with c have h: "fetch_videos e (fetchByIds_params apiKey ids) = Some h"
        using hp by simp
      show ?thesis
      proof (cases "ok h")
        case True
        with False c have "res_json h = Object itsh" by simp
        then show ?thesis
          using fetchByIds_done [OF False h True] False True hp by simp
      next
        case False
        then show ?thesis
          using fetchByIds_failed [OF \<open>ids \<noteq> []\<close> h] \<open>ids \<noteq> []\<close> hp by simp
      qed
    qed
    show ?thesis
      using fd params by (simp add: fb hy)
  qed
  from p pre err run show ?thesis by blast
qed

theorem fallback_procedure_witness:
  "fetch_data (sample_env (Some ''k'') videos_404 search_hits channels_ok) ''k'' ''KR'' ''25''
     = (Continue (Some (Some sample_items)),
        [(VideosApi, primary_params ''k'' ''KR'' ''25''),
         (SearchApi, buildSearchParams ''k'' ''KR'' ''25'' True),
         (VideosApi, fetchByIds_params ''k'' [''a'', ''b''])])
   \<and> GET_videos (sample_env (Some ''k'') videos_404 search_denied channels_ok) [(''category'', ''25'')]
     = (Respond \<lparr>status = 403, body = ErrorBody ''YouTube API error'' (Some ''quota exceeded'')\<rparr>,
        [(VideosApi, primary_params ''k'' ''KR'' ''25''),
         (SearchApi, buildSearchParams ''k'' ''KR'' ''25'' True)])"
proof -
  let ?e1 = "sample_env (Some ''k'') videos_404 search_hits channels_ok"
  let ?e2 = "sample_env (Some ''k'') videos_404 search_denied channels_ok"
  let ?q = "[(''category'', ''25'')]"
  let ?sp1 = "buildSearchParams ''k'' ''KR'' ''25'' True"
  let ?hits = "Some [sample_hit ''a'', sample_hit ''b'']"
  let ?nf = "\<lparr>res_status = 404, res_text = Some ''no such category'',
              res_json = Invalid :: VideoItem json\<rparr>"
  let ?s1 = "\<lparr>res_status = 200, res_text = Some [], res_json = Object ?hits\<rparr>"
  let ?den = "\<lparr>res_status = 403, res_text = Some ''quota exceeded'',
               res_json = Invalid :: SearchItem json\<rparr>"
  let ?h = "\<lparr>res_status = 200, res_text = Some [], res_json = Object (Some sample_items)\<rparr>"
  have cred: "credential ?e1 = Some ''k''" "credential ?e2 = Some ''k''"
    by code_simp+
  have q: "''KR'' = query_region ?q" "''25'' = query_category ?q"
    by code_simp+
  have nf: "fetch_videos ?e1 (primary_params ''k'' ''KR'' ''25'') = Some ?nf"
    "fetch_videos ?e2 (primary_params ''k'' ''KR'' ''25'') = Some ?nf"
    "res_status ?nf = 404" "''25'' \<noteq> ''all''"
    by code_simp+
  have ids: "search_ids ?hits = [''a'', ''b'']"
    by code_simp
  have s1: "fetch_search ?e1 ?sp1 = Some ?s1" "ok ?s1"
    by code_simp+
  have h: "fetch_videos ?e1 (fetchByIds_params ''k'' [''a'', ''b'']) = Some ?h" "ok ?h"
    by code_simp+
  have d: "fetch_search ?e2 ?sp1 = Some ?den" "\<not> ok ?den"
    by code_simp+
  note a = fallback_procedure [where ?its1.0 = ?hits and ?its2.0 = None and ?s2.0 = ?s1
      and h = ?h and itsh = "Some sample_items" and message = "[]",
      OF cred(1) q refl nf(1) nf(3) nf(4) refl refl s1(1) refl refl]
  note b = fallback_procedure [where ?its1.0 = None and ?its2.0 = None and ?s2.0 = ?den
      and h = ?h and itsh = None and message = "''quota exceeded''",
      OF cred(2) q refl nf(2) nf(3) nf(4) refl refl d(1) refl refl]
  from a have "fetch_data ?e1 ''k'' ''KR'' ''25''
     = (Continue (Some (Some sample_items)),
        [(VideosApi, primary_params ''k'' ''KR'' ''25''), (SearchApi, ?sp1),
         (VideosApi, fetchByIds_params ''k'' [''a'', ''b''])])"
    using s1(2) h by (simp add: ids items_or_empty_def)
  moreover from b have "GET_videos ?e2 ?q
     = (Respond \<lparr>status = 403, body = ErrorBody ''YouTube API error'' (Some ''quota exceeded'')\<rparr>,
        [(VideosApi, primary_params ''k'' ''KR'' ''25''), (SearchApi, ?sp1)])"
    using d(2) by simp
  ultimately show ?thesis by blast
qed


section \<open>Channel thumbnails\<close>

lemma distinct_in_order_acc:
  "distinct acc \<Longrightarrow>
     distinct (foldl (\<lambda>acc x. if x \<in> set acc then acc else acc @ [x]) acc xs)
     \<and> set (foldl (\<lambda>acc x. if x \<in> set acc then acc else acc @ [x]) acc xs) = set acc \<union> set xs"
  by (induction xs arbitrary: acc) auto

lemma distinct_in_order:
  "distinct (distinct_in_order xs)" "set (distinct_in_order xs) = set xs"
  using distinct_in_order_acc [of "[]" xs] by (simp_all add: distinct_in_order_def)










lemma status_videos_response [simp]:
  "status (videos_response e region category s shorts thumbs items) = 200"
  by (simp add: videos_response_def Let_def)









section \<open>Durations\<close>

lemma find_PT_Some: "find_PT s = Some r \<Longrightarrow> \<exists>a. s = a @ ''PT'' @ r"
proof (induction s rule: find_PT.induct)
  case (1 a b cs)
  show ?case
  proof (cases "a = CHR ''P'' \<and> b = CHR ''T''")
    case True
    with 1(2) have "a # b # cs = [] @ ''PT'' @ r" by simp
    then show ?thesis by blast
  next
    case False
    with 1 obtain a' where "b # cs = a' @ ''PT'' @ r" by auto
    then have "a # b # cs = (a # a') @ ''PT'' @ r" by simp
    then show ?thesis by blast
  qed
qed simp_all

lemma find_PT_append: "find_PT (a @ ''PT'' @ b) \<noteq> None"
proof (induction a)
  case Nil
  then show ?case by simp
next
  case (Cons x a)
  then show ?case by (cases a) auto
qed

lemma contains_PT_find: "contains_PT s \<longleftrightarrow> find_PT s \<noteq> None"
proof
  assume "contains_PT s"
  then show "find_PT s \<noteq> None"
    using find_PT_append by (auto simp: contains_PT_def)
next
  assume "find_PT s \<noteq> None"
  then obtain r where "find_PT s = Some r" by auto
  then show "contains_PT s"
    using find_PT_Some [of s r] by (auto simp: contains_PT_def)
qed

lemma exec_duration_None: "\<not> contains_PT s \<Longrightarrow> exec_duration s = None"
  by (simp add: exec_duration_def contains_PT_find)

lemma decimal_digits_nonempty: "decimal_digits n \<noteq> []"
  by (subst decimal_digits.simps) simp

lemma padStart2_digit: "n < 10 \<Longrightarrow> padStart2 (decimal_digits n) = [CHR ''0'', digit_char n]"
  by (subst decimal_digits.simps) (simp add: padStart2_def)

lemma padStart2_long: "10 \<le> n \<Longrightarrow> padStart2 (decimal_digits n) = decimal_digits n"
proof -
  assume "10 \<le> n"
  then have "decimal_digits n = decimal_digits (n div 10) @ [digit_char (n mod 10)]"
    by (subst decimal_digits.simps) simp
  then show ?thesis by (simp add: padStart2_def decimal_digits_nonempty)
qed

lemma group_hit:
  "digit_string ds \<Longrightarrow> \<not> is_digit c \<Longrightarrow> group c (ds @ c # r) = (Some ds, r)"
  by (simp add: group_def digit_string_def takeWhile_append2 dropWhile_append2)

lemma group_miss_letter:
  "digit_string ds \<Longrightarrow> \<not> is_digit d \<Longrightarrow> d \<noteq> c \<Longrightarrow> group c (ds @ d # r) = (None, ds @ d # r)"
  by (simp add: group_def digit_string_def takeWhile_append2 dropWhile_append2)

lemma group_miss_nil: "group c [] = (None, [])"
  by (simp add: group_def)

lemma letters_not_digits:
  "\<not> is_digit CHR ''H''" "\<not> is_digit CHR ''M''" "\<not> is_digit CHR ''S''"
  by (simp_all add: is_digit_def)

lemma exec_duration_encode:
  assumes "opt_digits h" "opt_digits m" "opt_digits sec"
  shows "exec_duration (encode_duration h m sec) = Some (h, m, sec)"
proof -
  let ?M = "component m CHR ''M''" and ?S = "component sec CHR ''S''"
  have S: "group CHR ''S'' ?S = (sec, [])"
    using assms(3) group_hit [of _ "CHR ''S''" "[]"]
    by (cases sec) (simp_all add: component_def opt_digits_def group_miss_nil letters_not_digits)
  have S_H: "group CHR ''H'' ?S = (None, ?S)" and S_M: "group CHR ''M'' ?S = (None, ?S)"
    using assms(3) group_miss_letter [of _ "CHR ''S''" _ "[]"]
    by (cases sec; simp add: component_def opt_digits_def group_miss_nil letters_not_digits)+
  have M: "group CHR ''M'' (?M @ ?S) = (m, ?S)"
    using assms(2) S_M group_hit [of _ "CHR ''M''" ?S]
    by (cases m) (simp_all add: component_def opt_digits_def letters_not_digits)
  have M_H: "group CHR ''H'' (?M @ ?S) = (None, ?M @ ?S)"
    using assms(2) S_H group_miss_letter [of _ "CHR ''M''" "CHR ''H''" ?S]
    by (cases m) (simp_all add: component_def opt_digits_def letters_not_digits)
  have H: "group CHR ''H'' (component h CHR ''H'' @ ?M @ ?S) = (h, ?M @ ?S)"
    using assms(1) M_H group_hit [of _ "CHR ''H''" "?M @ ?S"]
    by (cases h) (simp_all add: component_def opt_digits_def letters_not_digits)
  show ?thesis
    by (simp add: exec_duration_def encode_duration_def H M S)
qed

lemma encode_nonempty: "encode_duration h m sec \<noteq> []"
  by (simp add: encode_duration_def)

text \<open>The arithmetic of the parser is exact below \<open>2 ^ 53\<close> and leaves the integers above.\<close>

lemma as_double_exact: "n < 2 ^ 53 \<Longrightarrow> as_double (enat n) = enat n"
  by (simp add: as_double_def)

lemma as_double_beyond: "2 ^ 53 \<le> n \<Longrightarrow> as_double (enat n) = Beyond"
  by (simp add: as_double_def)

lemma group_number_component: "group_number g = as_double (enat (component_value g))"
  by (cases g) (simp_all add: group_number_def component_value_def as_double_def zero_enat_def)

lemma double_sum:
  "as_double (as_double (as_double (as_double (enat a) * 3600) + as_double (as_double (enat b) * 60))
      + as_double (enat c))
     = as_double (enat (a * 3600 + b * 60 + c))"
  by (simp add: as_double_def numeral_eq_enat)

lemma parseIsoDuration_encode:
  assumes "opt_digits h" "opt_digits m" "opt_digits sec"
  shows "parseIsoDuration (Some (encode_duration h m sec))
           = as_double (enat (component_value h * 3600 + component_value m * 60
                                + component_value sec))"
  using assms
  by (simp add: parseIsoDuration_def exec_duration_encode encode_nonempty group_number_component
      double_sum)

lemma formatDuration_encode:
  assumes "opt_digits h" "opt_digits m" "opt_digits sec"
    and "component_value h < 2 ^ 53" "component_value m < 2 ^ 53" "component_value sec < 2 ^ 53"
  shows "formatDuration (Some (encode_duration h m sec))
           = Some (if component_value h > 0
                   then decimal_digits (component_value h) @ '':''
                          @ padStart2 (decimal_digits (component_value m)) @ '':''
                          @ padStart2 (decimal_digits (component_value sec))
                   else decimal_digits (component_value m) @ '':''
                          @ padStart2 (decimal_digits (component_value sec)))"
  using assms
  by (simp add: formatDuration_def exec_duration_encode encode_nonempty group_number_component
      as_double_exact String_number_def zero_enat_def)

text \<open>
  Above the bound the parser's sum is no longer the exact one, and the display string is not
  made of the decimal digits of the components: \<open>PT9007199254740993S\<close> is parsed as a double
  that is not 9007199254740993.
\<close>

lemma duration_above_bound:
  "parseIsoDuration (Some ''PT9007199254740993S'') = Beyond"
  "formatDuration (Some ''PT9007199254740993S'') = None"
  by (simp_all add: parseIsoDuration_def formatDuration_def exec_duration_def group_def
      is_digit_def group_number_def dec_def digit_val_def as_double_def String_number_def
      zero_enat_def)


text \<open>
  Claim C5, as stated, says that every malformed input yields zero seconds and an empty
  display string. The expression is not anchored: \<open>XPT5M\<close> is not an encoded duration, and
  it is parsed as five minutes.
\<close>

theorem malformed_duration_counterexample:
  "\<not> iso_wellformed ''XPT5M'' \<and> parseIsoDuration (Some ''XPT5M'') = 300
   \<and> formatDuration (Some ''XPT5M'') = Some ''5:00''"
proof -
  have "\<not> iso_wellformed ''XPT5M''"
    by (simp add: iso_wellformed_def encode_duration_def)
  moreover have "parseIsoDuration (Some ''XPT5M'') = 300"
    "formatDuration (Some ''XPT5M'') = Some ''5:00''"
    by code_simp+
  ultimately show ?thesis by blast
qed


text \<open>
  Claim C5, amended. \<open>PT1H2M3S\<close> gives 3723 seconds and \<open>1:02:03\<close>, \<open>PT5M9S\<close> gives 309
  seconds and \<open>5:09\<close>, an empty or absent input gives 0 seconds and the empty string. For
  every encoded duration whose seconds \<open>3600 h + 60 m + s\<close>, an absent component counting as
  zero, are below \<open>2 ^ 53\<close>, the parser gives exactly that number, and the display string is
  \<open>H:MM:SS\<close> when the hours are positive and \<open>M:SS\<close> otherwise, the hours and minutes in
  decimal digits, minutes (after hours) and seconds padded to two digits. Every input that
  does not contain \<open>PT\<close> gives 0 seconds and the empty string. The parser is a total function:
  no input raises an error.
\<close>

theorem duration_parser:
  "parseIsoDuration (Some ''PT1H2M3S'') = 3723
   \<and> formatDuration (Some ''PT1H2M3S'') = Some ''1:02:03''
   \<and> parseIsoDuration (Some ''PT5M9S'') = 309 \<and> formatDuration (Some ''PT5M9S'') = Some ''5:09''
   \<and> parseIsoDuration (Some []) = 0 \<and> formatDuration (Some []) = Some []
   \<and> parseIsoDuration None = 0 \<and> formatDuration None = Some []
   \<and> group_number None = 0 \<and> component_value None = 0
   \<and> (opt_digits h \<and> opt_digits m \<and> opt_digits sec
        \<and> component_value h * 3600 + component_value m * 60 + component_value sec < 2 ^ 53 \<longrightarrow>
        parseIsoDuration (Some (encode_duration h m sec))
          = enat (component_value h * 3600 + component_value m * 60 + component_value sec)
        \<and> formatDuration (Some (encode_duration h m sec))
          = Some (if component_value h > 0
                  then decimal_digits (component_value h) @ '':''
                         @ padStart2 (decimal_digits (component_value m)) @ '':''
                         @ padStart2 (decimal_digits (component_value sec))
                  else decimal_digits (component_value m) @ '':''
                         @ padStart2 (decimal_digits (component_value sec))))
   \<and> (n < 10 \<longrightarrow> padStart2 (decimal_digits n) = [CHR ''0'', digit_char n])
   \<and> (10 \<le> n \<longrightarrow> padStart2 (decimal_digits n) = decimal_digits n)
   \<and> (\<not> contains_PT s \<longrightarrow> parseIsoDuration (Some s) = 0 \<and> formatDuration (Some s) = Some [])"
proof -
  have 1: "parseIsoDuration (Some ''PT1H2M3S'') = 3723"
    "formatDuration (Some ''PT1H2M3S'') = Some ''1:02:03''"
    "parseIsoDuration (Some ''PT5M9S'') = 309" "formatDuration (Some ''PT5M9S'') = Some ''5:09''"
    by code_simp+
  have 2: "parseIsoDuration (Some []) = 0" "formatDuration (Some []) = Some []"
    "parseIsoDuration None = 0" "formatDuration None = Some []" "group_number None = 0"
    "component_value None = 0"
    by (simp_all add: parseIsoDuration_def formatDuration_def group_number_def component_value_def)
  have 3: "parseIsoDuration (Some (encode_duration h m sec))
          = enat (component_value h * 3600 + component_value m * 60 + component_value sec)
        \<and> formatDuration (Some (encode_duration h m sec))
          = Some (if component_value h > 0
                  then decimal_digits (component_value h) @ '':''
                         @ padStart2 (decimal_digits (component_value m)) @ '':''
                         @ padStart2 (decimal_digits (component_value sec))
                  else decimal_digits (component_value m) @ '':''
                         @ padStart2 (decimal_digits (component_value sec)))"
    if a: "opt_digits h \<and> opt_digits m \<and> opt_digits sec
        \<and> component_value h * 3600 + component_value m * 60 + component_value sec < 2 ^ 53"
  proof -
    from a have small: "component_value h < 2 ^ 53" "component_value m < 2 ^ 53"
      "component_value sec < 2 ^ 53"
      by simp_all
    from a show ?thesis
      using parseIsoDuration_encode [of h m sec] formatDuration_encode [OF _ _ _ small]
      by (simp add: as_double_exact)
  qed
  have 4: "parseIsoDuration (Some s) = 0 \<and> formatDuration (Some s) = Some []" if "\<not> contains_PT s"
    using that by (simp add: parseIsoDuration_def formatDuration_def exec_duration_None)
  from 1 2 3 4 padStart2_digit [of n] padStart2_long [of n] show ?thesis
    by blast
qed

theorem duration_parser_witness:
  "parseIsoDuration (Some ''PT1H30S'') = 3630 \<and> formatDuration (Some ''PT1H30S'') = Some ''1:00:30''
   \<and> parseIsoDuration (Some ''PT12M'') = 720 \<and> formatDuration (Some ''PT12M'') = Some ''12:00''
   \<and> \<not> contains_PT ''P1D'' \<and> parseIsoDuration (Some ''P1D'') = 0
   \<and> formatDuration (Some ''P1D'') = Some []
   \<and> padStart2 (decimal_digits 7) = ''07'' \<and> padStart2 (decimal_digits 42) = decimal_digits 42"
proof -
  have enc: "encode_duration (Some ''1'') None (Some ''30'') = ''PT1H30S''"
    "encode_duration None (Some ''12'') None = ''PT12M''"
    by code_simp+
  have od: "opt_digits (Some ''1'') \<and> opt_digits None \<and> opt_digits (Some ''30'')"
    "opt_digits None \<and> opt_digits (Some ''12'') \<and> opt_digits None"
    by (simp_all add: opt_digits_def digit_string_def is_digit_def)
  have cv: "component_value (Some ''1'') = 1" "component_value (Some ''30'') = 30"
    "component_value None = 0" "component_value (Some ''12'') = 12"
    by code_simp+
  have st: "decimal_digits 1 = ''1''" "padStart2 (decimal_digits 0) = ''00''"
    "padStart2 (decimal_digits 30) = ''30''"
    "decimal_digits 12 = ''12''" "digit_char 7 = CHR ''7''" "decimal_digits (Suc 0) = ''1''"
    by code_simp+
  have np: "\<not> contains_PT ''P1D''"
    by (simp add: contains_PT_find)
  note a = duration_parser [of "Some ''1''" None "Some ''30''" 7 "''P1D''"]
  note b = duration_parser [of None "Some ''12''" None 42 "''P1D''"]
  from a od(1) have "parseIsoDuration (Some ''PT1H30S'') = 3630
      \<and> formatDuration (Some ''PT1H30S'') = Some ''1:00:30''"
    by (simp add: enc cv st numeral_eq_enat)
  moreover from b od(2) have "parseIsoDuration (Some ''PT12M'') = 720
      \<and> formatDuration (Some ''PT12M'') = Some ''12:00''"
    by (simp add: enc cv st numeral_eq_enat)
  moreover from a np have "parseIsoDuration (Some ''P1D'') = 0 \<and> formatDuration (Some ''P1D'') = Some []"
    by blast
  moreover from a have "padStart2 (decimal_digits 7) = ''07''"
    by (simp add: st)
  moreover from b have "padStart2 (decimal_digits 42) = decimal_digits 42"
    by simp
  ultimately show ?thesis using np by blast
qed


end
